theory Spec2Isabelle
  imports Complex_Main
begin

section \<open>JavaScript values, files and the outside world\<close>

text \<open>
  The asset server is TypeScript on an asynchronous runtime. One consumer handles one
  delivery at a time and every call is awaited, so a job is a sequential program over
  \<^item> the local file system (a map from path to contents),
  \<^item> the Log collection of the store (one document per \<open>originalUrl\<close>, the unique key),
  \<^item> the operational log (the winston logger and the console; the emoji that start some
    lines are left out),
  and it records the calls it makes to the codecs and to remote storage.
  Everything the code obtains from a collaborator (HTTP responses, sharp, ffprobe, ffmpeg,
  Ghostscript, the clock) is a field of the record \<open>world\<close>. A thrown exception is the
  \<open>Inl\<close> of a sum. The store and the file writes are taken to succeed; \<open>unlink\<close> may fail.
\<close>

datatype js_error = JsError (err_message: string) (err_stack: string)

definition new_Error :: "string \<Rightarrow> js_error" where
  "new_Error m = JsError m (''Error: '' @ m)"

definition type_Error :: "string \<Rightarrow> js_error" where
  "type_Error m = JsError m (''TypeError: '' @ m)"

definition enoent :: "string \<Rightarrow> js_error" where
  "enoent p = new_Error (''ENOENT: no such file or directory, '' @ p)"

text \<open>A template literal: literal chunks and interpolated numbers, in order.\<close>

datatype frag = Txt string | NumI int | NumR real

type_synonym template = "frag list"

type_synonym buffer = "nat list"

text \<open>The option bags of \<open>processingConfig.ts\<close>. An absent optional field is \<open>None\<close>;
  \<open>resize\<close> is read by no executor and is left out.\<close>

record CropParams =
  crop_x :: int
  crop_y :: int
  crop_width :: int
  crop_height :: int

record TrimParams =
  trim_start :: real
  trim_end :: real

record ImageProcessingOptions =
  img_cropParams :: "CropParams option"
  img_compress :: "bool option"

record VideoProcessingOptions =
  vid_trimParams :: "TrimParams option"
  vid_cropParams :: "CropParams option"
  vid_compression :: "bool option"

record PDFProcessingOptions =
  pdf_compress :: "bool option"

text \<open>\<open>assetConfig\<close>: a key that is present holds an option bag; \<open>None\<close> is
  \<open>hasOwnProperty\<close> false.\<close>

record AssetConfig =
  imageProps :: "ImageProcessingOptions option"
  videoProps :: "VideoProcessingOptions option"
  pdfProps :: "PDFProcessingOptions option"

subsection \<open>The log documents (\<open>models/Log.ts\<close>)\<close>

datatype LogStatus = Pending | Processing | Completed | Failed | ErrorStatus | Warning

record LogEventCurriedProps =
  ev_status :: LogStatus
  ev_message :: template
  ev_error :: "string option"

record IRequestLog =
  req_requestId :: string
  req_source :: string
  req_processingConfig :: "AssetConfig option"
  req_events :: "LogEventCurriedProps list"

datatype level = Info | Warn | Err | ConsoleLog | ConsoleError

subsection \<open>The state of a run\<close>

text \<open>The command that \<open>processVideo\<close> builds with fluent-ffmpeg.\<close>

record FfmpegCommand =
  cmd_videoCodec :: string
  cmd_startTime :: "real option"
  cmd_duration :: "real option"
  cmd_videoFilters :: "template list"
  cmd_size :: "string option"
  cmd_outputOptions :: "string list"

text \<open>
  The calls that write or transform, in the order in which the code makes them, each with
  its arguments: the PUT of \<open>uploadFile\<close> (URL, body, Content-Type), \<open>toFile\<close> of sharp
  (input path, the rectangle given to \<open>extract\<close> if any, WebP quality, output path),
  \<open>save\<close> of ffmpeg (input path, command, output path) and the Ghostscript process
  (input path, output path).
\<close>

datatype call =
    Put string buffer string
  | SharpToFile string "CropParams option" nat string
  | FfmpegSave string FfmpegCommand string
  | Ghostscript string string

record state =
  files :: "string \<rightharpoonup> buffer"
  logs :: "string \<rightharpoonup> IRequestLog list"
  oplog :: "(level \<times> template) list"
  calls :: "call list"

subsection \<open>Collaborators\<close>

datatype head_result = HeadError js_error | HeadResponse (head_ok: bool) (head_content_type: "string option")

datatype get_result = GetError js_error | GetResponse bool buffer

datatype put_result = PutError js_error | PutResponse bool

record SharpMetadata =
  md_width :: "nat option"
  md_height :: "nat option"

record FfprobeStream =
  codec_type :: string
  st_width :: "nat option"
  st_height :: "nat option"

record FfprobeData =
  streams :: "FfprobeStream list"
  format_duration :: "real option"

record world =
  tmpdir :: string
  cwd :: string
  now_input :: string
  now_pdf :: string
  uuidv4 :: string
  connectRabbitMQ :: "js_error option"
  head_type :: "string \<Rightarrow> head_result"
  head_exists :: "string \<Rightarrow> head_result"
  http_get :: "string \<Rightarrow> get_result"
  http_put :: "string \<Rightarrow> buffer \<Rightarrow> string \<Rightarrow> put_result"
  sharp_metadata :: "buffer \<Rightarrow> js_error + SharpMetadata"
  sharp_toFile :: "buffer \<Rightarrow> CropParams option \<Rightarrow> nat \<Rightarrow> js_error + buffer"
  ffprobe :: "buffer \<Rightarrow> js_error + FfprobeData"
  ffmpeg_save :: "buffer \<Rightarrow> FfmpegCommand \<Rightarrow> js_error + buffer"
  ghostscript :: "buffer \<Rightarrow> js_error + (string \<times> buffer option)"
  unlink_error :: "string \<Rightarrow> js_error option"

text \<open>
  \<open>now_input\<close> and \<open>now_pdf\<close> are the decimal renderings of \<open>Date.now()\<close> at the two
  places that name a file after it. \<open>head_type\<close> answers the HEAD request of
  \<open>getAssetType\<close>, \<open>head_exists\<close> the later one of \<open>publicAssetExists\<close>.
  \<open>sharp_toFile buf extract quality\<close> is the WebP encoding of \<open>buf\<close> after the optional
  \<open>extract\<close>; \<open>ghostscript\<close> returns what the process wrote to stderr and the output
  file it produced, if any.
\<close>

subsection \<open>Paths (\<open>path.join\<close>, \<open>path.basename\<close>, \<open>path.extname\<close>)\<close>

definition path_join :: "string \<Rightarrow> string \<Rightarrow> string" where
  "path_join a b = a @ ''/'' @ b"

definition basename :: "string \<Rightarrow> string" where
  "basename p = rev (takeWhile (\<lambda>c. c \<noteq> CHR ''/'') (rev p))"

definition extname :: "string \<Rightarrow> string" where
  "extname p =
     (let b = basename p;
          stem = dropWhile (\<lambda>c. c \<noteq> CHR ''.'') (rev b)
      in if length stem \<le> 1 \<or> b = ''..'' then ''''
         else CHR ''.'' # rev (takeWhile (\<lambda>c. c \<noteq> CHR ''.'') (rev b)))"

definition basename_ext :: "string \<Rightarrow> string \<Rightarrow> string" where
  "basename_ext p ext =
     (let b = basename p
      in if ext \<noteq> '''' \<and> b \<noteq> ext \<and> length ext \<le> length b
            \<and> drop (length b - length ext) b = ext
         then take (length b - length ext) b else b)"

text \<open>\<open>fs.unlinkSync\<close> and \<open>fs.promises.unlink\<close>.\<close>

definition unlink :: "world \<Rightarrow> string \<Rightarrow> state \<Rightarrow> (js_error + unit) \<times> state" where
  "unlink w p s =
     (case files s p of
        None \<Rightarrow> (Inl (enoent p), s)
      | Some b \<Rightarrow>
          (case unlink_error w p of
             Some e \<Rightarrow> (Inl e, s)
           | None \<Rightarrow> (Inr (), s\<lparr>files := (files s)(p := None)\<rparr>)))"

subsection \<open>Logging (\<open>utils/logger.ts\<close>, \<open>utils/logService.ts\<close>)\<close>

definition logger :: "level \<Rightarrow> template \<Rightarrow> state \<Rightarrow> state" where
  "logger l m s = s\<lparr>oplog := oplog s @ [(l, m)]\<rparr>"

definition status_name :: "LogStatus \<Rightarrow> string" where
  "status_name st = (case st of Pending \<Rightarrow> ''pending'' | Processing \<Rightarrow> ''processing''
     | Completed \<Rightarrow> ''completed'' | Failed \<Rightarrow> ''failed'' | ErrorStatus \<Rightarrow> ''error''
     | Warning \<Rightarrow> ''warning'')"

text \<open>\<open>createLogger\<close>, the part before the closure is returned: find or create the log
  document of \<open>originalUrl\<close>, then add a request entry unless one with this \<open>requestId\<close>
  is there.\<close>

definition createLogger ::
  "string \<Rightarrow> string \<Rightarrow> string \<Rightarrow> AssetConfig option \<Rightarrow> state \<Rightarrow> state" where
  "createLogger requestId source originalUrl processingConfig s =
     (let requests = (case logs s originalUrl of None \<Rightarrow> [] | Some rs \<Rightarrow> rs);
          s1 = (case logs s originalUrl of
                  None \<Rightarrow> s\<lparr>logs := (logs s)(originalUrl \<mapsto> [])\<rparr>
                | Some rs \<Rightarrow> s)
      in case find (\<lambda>req. req_requestId req = requestId) requests of
           None \<Rightarrow>
             s1\<lparr>logs := (logs s1)(originalUrl \<mapsto>
                   requests @ [\<lparr>req_requestId = requestId, req_source = source,
                                req_processingConfig = processingConfig,
                                req_events = []\<rparr>])\<rparr>
         | Some existingRequest \<Rightarrow> s1)"

text \<open>\<open>$push\<close> on \<open>requests.$.events\<close>: the positional operator is the first request
  entry that matches.\<close>

fun push_event :: "string \<Rightarrow> LogEventCurriedProps \<Rightarrow> IRequestLog list \<Rightarrow> IRequestLog list" where
  "push_event requestId e [] = []"
| "push_event requestId e (r # rs) =
     (if req_requestId r = requestId then r\<lparr>req_events := req_events r @ [e]\<rparr> # rs
      else r # push_event requestId e rs)"

text \<open>The event object that is stored: \<open>error: error || null\<close>. The \<open>createdAt\<close> date
  is left out.\<close>

definition stored_event :: "LogEventCurriedProps \<Rightarrow> LogEventCurriedProps" where
  "stored_event props =
     props\<lparr>ev_error := (if ev_error props = Some '''' then None else ev_error props)\<rparr>"

text \<open>The closure \<open>logEventCurried\<close> that \<open>createLogger\<close> returns, bound to its three
  keys. The colours of the operational line are left out.\<close>

definition logEventCurried ::
  "string \<Rightarrow> string \<Rightarrow> string \<Rightarrow> LogEventCurriedProps \<Rightarrow> state \<Rightarrow> state" where
  "logEventCurried requestId source originalUrl props s =
     (let event = stored_event props;
          s1 = (case logs s originalUrl of
                  None \<Rightarrow> s
                | Some rs \<Rightarrow> s\<lparr>logs := (logs s)(originalUrl \<mapsto> push_event requestId event rs)\<rparr>)
      in logger Info
           ([Txt ''Log saved | ''] @ ev_message props @
            [Txt ('' | RequestID: '' @ requestId @ '' | Source: '' @ source @
                  '' | OriginalURL: '' @ originalUrl @ '' | Status: '' @
                  status_name (ev_status props))]) s1)"

type_synonym logEventFn = "LogEventCurriedProps \<Rightarrow> state \<Rightarrow> state"

text \<open>\<open>if (options?.logEventFn) await options.logEventFn(props)\<close>\<close>

definition emit :: "logEventFn option \<Rightarrow> LogEventCurriedProps \<Rightarrow> state \<Rightarrow> state" where
  "emit logEventFn props s = (case logEventFn of None \<Rightarrow> s | Some f \<Rightarrow> f props s)"

definition ev :: "LogStatus \<Rightarrow> template \<Rightarrow> LogEventCurriedProps" where
  "ev st m = \<lparr>ev_status = st, ev_message = m, ev_error = None\<rparr>"

definition truthy :: "bool option \<Rightarrow> bool" where
  "truthy b = (b = Some True)"

section \<open>The transform executors\<close>

subsection \<open>\<open>processImage\<close> (\<open>utils/imageProcessor.ts\<close>)\<close>

definition crop_message :: "CropParams \<Rightarrow> string \<Rightarrow> int \<Rightarrow> int \<Rightarrow> string \<Rightarrow> template" where
  "crop_message cp kind w h tail =
     [Txt ''Crop parameters ('', NumI (crop_x cp), Txt '', '', NumI (crop_y cp), Txt '', '',
      NumI (crop_width cp), Txt '', '', NumI (crop_height cp),
      Txt ('') exceed '' @ kind @ '' dimensions (''), NumI w, Txt '' x '', NumI h,
      Txt ('')'' @ tail)]"

text \<open>The block \<open>if (cropParams) { ... }\<close>: the rectangle handed to \<open>image.extract\<close>, if
  any. \<open>image.metadata()\<close> is awaited outside any \<open>try\<close>, so its rejection leaves
  \<open>processImage\<close>.\<close>

definition processImage_crop ::
  "world \<Rightarrow> string \<Rightarrow> CropParams option \<Rightarrow> logEventFn option \<Rightarrow> state
     \<Rightarrow> (js_error + CropParams option) \<times> state" where
  "processImage_crop w inputPath cropParams logEventFn s =
     (case cropParams of
        None \<Rightarrow> (Inr None, s)
      | Some cp \<Rightarrow>
          (case files s inputPath of
             None \<Rightarrow> (Inl (enoent inputPath), s)
           | Some input \<Rightarrow>
               (case sharp_metadata w input of
                  Inl e \<Rightarrow> (Inl e, s)
                | Inr metadata \<Rightarrow>
                    (let imgWidth = int (case md_width metadata of None \<Rightarrow> 0 | Some n \<Rightarrow> n);
                         imgHeight = int (case md_height metadata of None \<Rightarrow> 0 | Some n \<Rightarrow> n)
                     in if crop_x cp < 0 \<or> crop_y cp < 0
                           \<or> crop_x cp + crop_width cp > imgWidth
                           \<or> crop_y cp + crop_height cp > imgHeight
                        then
                          (let m = crop_message cp ''image'' imgWidth imgHeight
                                     ''. Proceeding without cropping (using full image).''
                           in (Inr (Some \<lparr>crop_x = 0, crop_y = 0, crop_width = imgWidth,
                                           crop_height = imgHeight\<rparr>),
                               emit logEventFn (ev Warning m) (logger ConsoleError m s)))
                        else (Inr (Some cp), s)))))"

definition processImage_outputPath :: "world \<Rightarrow> string \<Rightarrow> string" where
  "processImage_outputPath w inputPath =
     (let outputFolder = path_join (cwd w) ''processed'';
          baseName = basename_ext inputPath (extname inputPath)
      in path_join outputFolder (''processed-'' @ baseName @ ''.webp''))"

definition processImage ::
  "world \<Rightarrow> string \<Rightarrow> bool option \<Rightarrow> CropParams option \<Rightarrow> logEventFn option \<Rightarrow> state
     \<Rightarrow> (js_error + string) \<times> state" where
  "processImage w inputPath compress cropParams logEventFn s =
     (let outputPath = processImage_outputPath w inputPath
      in case processImage_crop w inputPath cropParams logEventFn s of
           (Inl e, s1) \<Rightarrow> (Inl e, s1)
         | (Inr extract, s1) \<Rightarrow>
             (case files s1 inputPath of
                None \<Rightarrow> (Inl (enoent inputPath), s1)
              | Some input \<Rightarrow>
                  (let MIN_SIZE = 500 * 1024;
                       quality = (if truthy compress \<and> length input > MIN_SIZE then 60 else 100);
                       s2 = s1\<lparr>calls := calls s1 @
                                      [SharpToFile inputPath extract quality outputPath]\<rparr>
                   in case sharp_toFile w input extract quality of
                        Inl e \<Rightarrow> (Inl e, s2)
                      | Inr out \<Rightarrow>
                          (Inr outputPath, s2\<lparr>files := (files s2)(outputPath \<mapsto> out)\<rparr>))))"

subsection \<open>\<open>processVideo\<close> (\<open>utils/videoProcessor.ts\<close>)\<close>

definition getVideoDimensions :: "world \<Rightarrow> string \<Rightarrow> state \<Rightarrow> js_error + nat \<times> nat" where
  "getVideoDimensions w inputPath s =
     (case files s inputPath of
        None \<Rightarrow> Inl (enoent inputPath)
      | Some input \<Rightarrow>
          (case ffprobe w input of
             Inl err \<Rightarrow> Inl err
           | Inr metadata \<Rightarrow>
               (case find (\<lambda>stream. codec_type stream = ''video'') (streams metadata) of
                  None \<Rightarrow> Inl (new_Error ''Could not determine video dimensions'')
                | Some videoStream \<Rightarrow>
                    (case st_width videoStream of
                       None \<Rightarrow> Inl (new_Error ''Could not determine video dimensions'')
                     | Some vw \<Rightarrow>
                         (case st_height videoStream of
                            None \<Rightarrow> Inl (new_Error ''Could not determine video dimensions'')
                          | Some vh \<Rightarrow>
                              if vw = 0 \<or> vh = 0
                              then Inl (new_Error ''Could not determine video dimensions'')
                              else Inr (vw, vh))))))"

definition getVideoDuration :: "world \<Rightarrow> string \<Rightarrow> state \<Rightarrow> js_error + real" where
  "getVideoDuration w inputPath s =
     (case files s inputPath of
        None \<Rightarrow> Inl (enoent inputPath)
      | Some input \<Rightarrow>
          (case ffprobe w input of
             Inl err \<Rightarrow> Inl err
           | Inr metadata \<Rightarrow>
               (case format_duration metadata of
                  None \<Rightarrow> Inl (new_Error ''Could not determine video duration'')
                | Some duration \<Rightarrow> Inr duration)))"

text \<open>A warning that carries the caught error: its message after a prefix, its stack in
  the \<open>error\<close> field.\<close>

definition error_event :: "string \<Rightarrow> js_error \<Rightarrow> LogEventCurriedProps" where
  "error_event prefix e =
     \<lparr>ev_status = Warning, ev_message = [Txt (prefix @ err_message e)],
      ev_error = Some (err_stack e)\<rparr>"

text \<open>The block that sets \<open>validCrop\<close>.\<close>

definition processVideo_validCrop ::
  "world \<Rightarrow> string \<Rightarrow> CropParams option \<Rightarrow> logEventFn option \<Rightarrow> state \<Rightarrow> bool \<times> state" where
  "processVideo_validCrop w inputPath cropParams logEventFn s =
     (case cropParams of
        None \<Rightarrow> (False, s)
      | Some cp \<Rightarrow>
          (case getVideoDimensions w inputPath s of
             Inr (vidWidth, vidHeight) \<Rightarrow>
               if crop_x cp < 0 \<or> crop_y cp < 0
                  \<or> crop_x cp + crop_width cp > int vidWidth
                  \<or> crop_y cp + crop_height cp > int vidHeight
               then
                 (let m = crop_message cp ''video'' (int vidWidth) (int vidHeight)
                            ''. Proceeding without cropping (using full video).''
                  in (False, emit logEventFn (ev Warning m) (logger ConsoleError m s)))
               else (True, s)
           | Inl error \<Rightarrow>
               (False,
                emit logEventFn (error_event ''Error retrieving video dimensions: '' error)
                  (logger ConsoleError
                     [Txt ''Error retrieving video dimensions:'', Txt (err_message error)] s))))"

text \<open>The block that sets \<open>validTrim\<close>.\<close>

definition processVideo_validTrim ::
  "world \<Rightarrow> string \<Rightarrow> TrimParams option \<Rightarrow> logEventFn option \<Rightarrow> state \<Rightarrow> bool \<times> state" where
  "processVideo_validTrim w inputPath trimParams logEventFn s =
     (case trimParams of
        None \<Rightarrow> (False, s)
      | Some tp \<Rightarrow>
          (case getVideoDuration w inputPath s of
             Inr videoDuration \<Rightarrow>
               if trim_start tp < 0 \<or> trim_end tp > videoDuration \<or> trim_start tp \<ge> trim_end tp
               then
                 (let m = [Txt ''Trim parameters (start: '', NumR (trim_start tp),
                           Txt '', end: '', NumR (trim_end tp),
                           Txt '') are invalid. Video duration is '', NumR videoDuration,
                           Txt '' seconds. Proceeding without trimming.'']
                  in (False, emit logEventFn (ev Warning m) (logger ConsoleError m s)))
               else (True, s)
           | Inl error \<Rightarrow>
               (False,
                emit logEventFn (error_event ''Error retrieving video duration: '' error)
                  (logger ConsoleError
                     [Txt ''Error retrieving video duration:'', Txt (err_message error)] s))))"

text \<open>The command built inside the returned promise, one definition for each of its three
  conditional steps: trim, crop, compression.\<close>

definition processVideo_trim ::
  "FfmpegCommand \<Rightarrow> TrimParams option \<Rightarrow> bool \<Rightarrow> logEventFn option \<Rightarrow> state
     \<Rightarrow> FfmpegCommand \<times> state" where
  "processVideo_trim ffmpegCommand trimParams validTrim logEventFn s =
     (case trimParams of
        Some tp \<Rightarrow>
          if validTrim
          then (ffmpegCommand\<lparr>cmd_startTime := Some (trim_start tp),
                              cmd_duration := Some (trim_end tp - trim_start tp)\<rparr>, s)
          else (ffmpegCommand,
                emit logEventFn
                  (ev Warning [Txt ''Trimming skipped due to invalid trim parameters.''])
                  (logger ConsoleError
                     [Txt ''Trimming skipped due to invalid trim parameters.''] s))
      | None \<Rightarrow> (ffmpegCommand, s))"

definition crop_filter :: "CropParams \<Rightarrow> template" where
  "crop_filter cp =
     [Txt ''crop='', NumI (crop_width cp), Txt '':'', NumI (crop_height cp), Txt '':'',
      NumI (crop_x cp), Txt '':'', NumI (crop_y cp)]"

definition processVideo_cropFilter ::
  "FfmpegCommand \<Rightarrow> CropParams option \<Rightarrow> bool \<Rightarrow> logEventFn option \<Rightarrow> state
     \<Rightarrow> FfmpegCommand \<times> state" where
  "processVideo_cropFilter ffmpegCommand cropParams validCrop logEventFn s =
     (case cropParams of
        Some cp \<Rightarrow>
          if validCrop
          then (ffmpegCommand\<lparr>cmd_videoFilters :=
                                cmd_videoFilters ffmpegCommand @ [crop_filter cp]\<rparr>, s)
          else (ffmpegCommand,
                emit logEventFn
                  (ev Warning [Txt ''Cropping skipped due to invalid crop parameters.''])
                  (logger ConsoleError
                     [Txt ''Cropping skipped due to invalid crop parameters.''] s))
      | None \<Rightarrow> (ffmpegCommand, s))"

text \<open>\<open>fs.stat\<close> of a missing input throws inside the \<open>try\<close> and is caught there.\<close>

definition processVideo_compress ::
  "string \<Rightarrow> FfmpegCommand \<Rightarrow> bool option \<Rightarrow> logEventFn option \<Rightarrow> state
     \<Rightarrow> FfmpegCommand \<times> state" where
  "processVideo_compress inputPath ffmpegCommand compression logEventFn s =
     (let MIN_SIZE = (1.5 * 1024 * 1024 :: real)
      in case files s inputPath of
           Some input \<Rightarrow>
             if truthy compression \<and> real (length input) > MIN_SIZE
             then (ffmpegCommand\<lparr>cmd_outputOptions :=
                                   cmd_outputOptions ffmpegCommand @ [''-crf 32'']\<rparr>, s)
             else (ffmpegCommand,
                   emit logEventFn
                     (ev Processing [Txt ''Skipping compression due to file size threshold.''])
                     (logger ConsoleLog
                        [Txt ''Skipping compression due to file size threshold.''] s))
         | None \<Rightarrow>
             (ffmpegCommand,
              emit logEventFn
                \<lparr>ev_status = Warning,
                 ev_message =
                   [Txt ''Error retrieving file size, proceeding without compression''],
                 ev_error = Some (err_stack (enoent inputPath))\<rparr>
                (logger ConsoleError
                   [Txt ''Error retrieving file size, proceeding without compression'',
                    Txt (err_message (enoent inputPath))] s)))"

definition processVideo_command ::
  "string \<Rightarrow> CropParams option \<Rightarrow> bool \<Rightarrow> TrimParams option \<Rightarrow> bool \<Rightarrow> bool option
     \<Rightarrow> logEventFn option \<Rightarrow> state \<Rightarrow> FfmpegCommand \<times> state" where
  "processVideo_command inputPath cropParams validCrop trimParams validTrim compression
       logEventFn s =
     (let c0 = \<lparr>cmd_videoCodec = ''libx264'', cmd_startTime = None, cmd_duration = None,
                cmd_videoFilters = [], cmd_size = None, cmd_outputOptions = []\<rparr>;
          (c1, s1) = processVideo_trim c0 trimParams validTrim logEventFn s;
          (c2, s2) = processVideo_cropFilter c1 cropParams validCrop logEventFn s1;
          c3 = c2\<lparr>cmd_size := Some ''640x?''\<rparr>
      in processVideo_compress inputPath c3 compression logEventFn s2)"

definition processVideo_outputPath :: "world \<Rightarrow> string \<Rightarrow> string" where
  "processVideo_outputPath w inputPath =
     (let outputFolder = path_join (cwd w) ''processed'';
          baseName = basename_ext inputPath (extname inputPath)
      in path_join outputFolder (''compressed-'' @ baseName @ ''.mp4''))"

definition processVideo ::
  "world \<Rightarrow> string \<Rightarrow> CropParams option \<Rightarrow> TrimParams option \<Rightarrow> bool option
     \<Rightarrow> logEventFn option \<Rightarrow> state \<Rightarrow> (js_error + string) \<times> state" where
  "processVideo w inputPath cropParams trimParams compression logEventFn s =
     (let outputPath = processVideo_outputPath w inputPath;
          (validCrop, s1) = processVideo_validCrop w inputPath cropParams logEventFn s;
          (validTrim, s2) = processVideo_validTrim w inputPath trimParams logEventFn s1;
          (command, s3) = processVideo_command inputPath cropParams validCrop trimParams
                            validTrim compression logEventFn s2
      in case files s3 inputPath of
           None \<Rightarrow> (Inl (enoent inputPath), s3)
         | Some input \<Rightarrow>
             (let s4 = s3\<lparr>calls := calls s3 @ [FfmpegSave inputPath command outputPath]\<rparr>
              in case ffmpeg_save w input command of
                   Inl err \<Rightarrow> (Inl err, s4)
                 | Inr out \<Rightarrow>
                     (Inr outputPath, s4\<lparr>files := (files s4)(outputPath \<mapsto> out)\<rparr>)))"

subsection \<open>\<open>processPDF\<close> (\<open>utils/pdfProcessor.ts\<close>)\<close>

text \<open>The \<open>catch\<close> block of the compression attempt.\<close>

definition processPDF_catch ::
  "logEventFn option \<Rightarrow> buffer \<Rightarrow> js_error \<Rightarrow> state \<Rightarrow> (js_error + buffer) \<times> state" where
  "processPDF_catch logEventFn fileBuffer error s =
     (Inr fileBuffer,
      emit logEventFn (error_event ''Error during PDF compression: '' error)
        (logger ConsoleError [Txt ''Error during PDF compression:'', Txt (err_message error)] s))"

definition processPDF_outputPath :: "world \<Rightarrow> string \<Rightarrow> string" where
  "processPDF_outputPath w inputPath =
     (let outputFileName = ''compressed-'' @ basename inputPath
      in path_join (tmpdir w) outputFileName)"

text \<open>The \<open>try\<close> block of the compression attempt: run Ghostscript, report what it wrote
  to stderr, read the output file and remove it.\<close>

definition processPDF_try ::
  "world \<Rightarrow> logEventFn option \<Rightarrow> buffer \<Rightarrow> string \<Rightarrow> state
     \<Rightarrow> (js_error + buffer) \<times> state" where
  "processPDF_try w logEventFn fileBuffer outputPath s =
     (case ghostscript w fileBuffer of
        Inl error \<Rightarrow> (Inl error, s)
      | Inr (stderr, written) \<Rightarrow>
          (let s1 = (case written of
                       None \<Rightarrow> s
                     | Some out \<Rightarrow> s\<lparr>files := (files s)(outputPath \<mapsto> out)\<rparr>);
               s2 = (if stderr \<noteq> ''''
                     then emit logEventFn
                            (ev Warning [Txt (''Ghostscript reported: '' @ stderr)])
                            (logger ConsoleError [Txt ''Ghostscript reported:'', Txt stderr] s1)
                     else s1)
           in case files s2 outputPath of
                None \<Rightarrow> (Inl (enoent outputPath), s2)
              | Some compressedBuffer \<Rightarrow>
                  (case unlink w outputPath s2 of
                     (Inl error, s3) \<Rightarrow> (Inl error, s3)
                   | (Inr u, s3) \<Rightarrow> (Inr compressedBuffer, s3))))"

definition processPDF ::
  "world \<Rightarrow> string \<Rightarrow> bool option \<Rightarrow> logEventFn option \<Rightarrow> state
     \<Rightarrow> (js_error + buffer) \<times> state" where
  "processPDF w inputPath compress logEventFn s =
     (case files s inputPath of
        None \<Rightarrow> (Inl (enoent inputPath), s)
      | Some fileBuffer \<Rightarrow>
          (let MIN_SIZE = 50 * 1024
           in if truthy compress \<and> length fileBuffer > MIN_SIZE
              then
                (let s0 = logger ConsoleLog [Txt ''Compressing PDF using Ghostscript...''] s;
                     s1 = emit logEventFn
                            (ev Processing [Txt ''Compressing PDF using Ghostscript...'']) s0;
                     outputPath = processPDF_outputPath w inputPath;
                     s2 = s1\<lparr>calls := calls s1 @ [Ghostscript inputPath outputPath]\<rparr>
                 in case processPDF_try w logEventFn fileBuffer outputPath s2 of
                      (Inl error, s3) \<Rightarrow> processPDF_catch logEventFn fileBuffer error s3
                    | (Inr compressedBuffer, s3) \<Rightarrow> (Inr compressedBuffer, s3))
              else
                (Inr fileBuffer,
                 emit logEventFn (ev Warning [Txt ''Skipping PDF compression.''])
                   (logger ConsoleLog [Txt ''Skipping PDF compression.''] s))))"

section \<open>The pipeline orchestrator (\<open>worker.ts\<close>, and its copy in \<open>index.ts\<close>)\<close>

subsection \<open>Remote transport and classification\<close>

definition startsWith :: "string \<Rightarrow> string \<Rightarrow> bool" where
  "startsWith str prefix = (take (length prefix) str = prefix)"

definition getAssetType :: "world \<Rightarrow> string \<Rightarrow> state \<Rightarrow> string \<times> state" where
  "getAssetType w url s =
     (case head_type w url of
        HeadError error \<Rightarrow>
          (''unknown'',
           logger ConsoleError [Txt ''Error fetching asset type:'', Txt (err_message error)] s)
      | HeadResponse ok header \<Rightarrow>
          (let contentType = (case header of None \<Rightarrow> '''' | Some c \<Rightarrow> c)
           in if startsWith contentType ''image/'' then (''image'', s)
              else if startsWith contentType ''video/'' then (''video'', s)
              else if contentType = ''application/pdf'' then (''pdf'', s)
              else (''unknown'', s)))"

definition publicAssetExists :: "world \<Rightarrow> string \<Rightarrow> bool" where
  "publicAssetExists w url =
     (case head_exists w url of HeadError error \<Rightarrow> False | HeadResponse ok header \<Rightarrow> ok)"

definition downloadFile :: "world \<Rightarrow> string \<Rightarrow> js_error + buffer" where
  "downloadFile w signedUrl =
     (case http_get w signedUrl of
        GetError error \<Rightarrow> Inl error
      | GetResponse ok body \<Rightarrow>
          if \<not> ok then Inl (new_Error ''Failed to download file from signed URL'')
          else Inr body)"

text \<open>\<open>uploadFile\<close>: \<open>overwriteUrl\<close> is not among the fields the worker checks, so it may
  be undefined; \<open>fetch\<close> then rejects before any request is made.\<close>

definition uploadFile ::
  "world \<Rightarrow> string option \<Rightarrow> buffer \<Rightarrow> string \<Rightarrow> state \<Rightarrow> (js_error + unit) \<times> state" where
  "uploadFile w signedUrl body contentType s =
     (case signedUrl of
        None \<Rightarrow> (Inl (type_Error ''Only absolute URLs are supported''), s)
      | Some url \<Rightarrow>
          (let s1 = s\<lparr>calls := calls s @ [Put url body contentType]\<rparr>
           in case http_put w url body contentType of
                PutError error \<Rightarrow> (Inl error, s1)
              | PutResponse ok \<Rightarrow>
                  if \<not> ok then (Inl (new_Error ''Failed to upload file to signed URL''), s1)
                  else (Inr (), s1)))"

definition getContentType :: "string \<Rightarrow> string" where
  "getContentType assetType =
     (if assetType = ''image'' then ''image/jpeg''
      else if assetType = ''video'' then ''video/mp4''
      else if assetType = ''pdf'' then ''application/pdf''
      else ''application/octet-stream'')"

subsection \<open>\<open>processAsset\<close>\<close>

text \<open>\<open>assetConfig.hasOwnProperty(key)\<close>: a TypeError when \<open>assetConfig\<close> is undefined,
  otherwise the own property, if there is one.\<close>

definition hasOwnProperty ::
  "AssetConfig option \<Rightarrow> (AssetConfig \<Rightarrow> 'a option) \<Rightarrow> js_error + 'a option" where
  "hasOwnProperty assetConfig key =
     (case assetConfig of
        None \<Rightarrow> Inl (type_Error ''undefined is not an object (evaluating assetConfig.hasOwnProperty)'')
      | Some cfg \<Rightarrow> Inr (key cfg))"

text \<open>Each test is \<open>assetType === kind && assetConfig.hasOwnProperty(...)\<close>; the kinds
  exclude each other, so a failed second conjunct falls through to the final \<open>else\<close>.\<close>

definition processAsset ::
  "world \<Rightarrow> string \<Rightarrow> string \<Rightarrow> AssetConfig option \<Rightarrow> logEventFn option \<Rightarrow> state
     \<Rightarrow> (js_error + string) \<times> state" where
  "processAsset w assetType inputPath assetConfig logEventFn s =
     (let unsupported = (Inl (new_Error (''Unsupported asset type: '' @ assetType)), s)
      in if assetType = ''image'' then
           (case hasOwnProperty assetConfig imageProps of
              Inl e \<Rightarrow> (Inl e, s)
            | Inr None \<Rightarrow> unsupported
            | Inr (Some props) \<Rightarrow>
                processImage w inputPath (img_compress props) (img_cropParams props) logEventFn s)
         else if assetType = ''video'' then
           (case hasOwnProperty assetConfig videoProps of
              Inl e \<Rightarrow> (Inl e, s)
            | Inr None \<Rightarrow> unsupported
            | Inr (Some props) \<Rightarrow>
                processVideo w inputPath (vid_cropParams props) (vid_trimParams props)
                  (vid_compression props) logEventFn s)
         else if assetType = ''pdf'' then
           (case hasOwnProperty assetConfig pdfProps of
              Inl e \<Rightarrow> (Inl e, s)
            | Inr None \<Rightarrow> unsupported
            | Inr (Some props) \<Rightarrow>
                (case processPDF w inputPath (pdf_compress props) logEventFn s of
                   (Inl e, s1) \<Rightarrow> (Inl e, s1)
                 | (Inr buffer, s1) \<Rightarrow>
                     (let tempDir = path_join (tmpdir w) ''asset-worker'';
                          outPath = path_join tempDir (''processed-pdf-'' @ now_pdf w @ ''.pdf'')
                      in (Inr outPath, s1\<lparr>files := (files s1)(outPath \<mapsto> buffer)\<rparr>))))
         else unsupported)"

subsection \<open>\<open>processMessage\<close>\<close>

text \<open>The queue message as the worker reads it: five keys of the parsed JSON value, each
  present or not. \<open>JSON.parse\<close> may throw (\<open>Malformed\<close>) or return \<open>null\<close>, on which
  every property read throws.\<close>

record queue_message =
  msg_requestId :: "string option"
  msg_source :: "string option"
  msg_originalUrl :: "string option"
  msg_overwriteUrl :: "string option"
  msg_assetConfig :: "AssetConfig option"

datatype content = Malformed js_error | JsonNull | JsonValue queue_message

record job =
  job_requestId :: string
  job_source :: string
  job_originalUrl :: string
  job_overwriteUrl :: "string option"
  job_assetConfig :: "AssetConfig option"

definition falsy :: "string option \<Rightarrow> bool" where
  "falsy v = (v = None \<or> v = Some '''')"

text \<open>The first \<open>try\<close> block: \<open>JSON.parse\<close> and the check of the required fields.\<close>

definition parse_message :: "content \<Rightarrow> js_error + job" where
  "parse_message msgContent =
     (case msgContent of
        Malformed e \<Rightarrow> Inl e
      | JsonNull \<Rightarrow> Inl (type_Error ''null is not an object (evaluating msg.source)'')
      | JsonValue msg \<Rightarrow>
          (case msg_source msg of
             None \<Rightarrow> Inl (new_Error ''Missing required fields: source, originalUrl, or requestId'')
           | Some source \<Rightarrow>
               (case msg_originalUrl msg of
                  None \<Rightarrow>
                    Inl (new_Error ''Missing required fields: source, originalUrl, or requestId'')
                | Some originalUrl \<Rightarrow>
                    (case msg_requestId msg of
                       None \<Rightarrow>
                         Inl (new_Error
                                ''Missing required fields: source, originalUrl, or requestId'')
                     | Some requestId \<Rightarrow>
                         if source = '''' \<or> originalUrl = '''' \<or> requestId = ''''
                         then Inl (new_Error
                                ''Missing required fields: source, originalUrl, or requestId'')
                         else Inr \<lparr>job_requestId = requestId, job_source = source,
                                   job_originalUrl = originalUrl,
                                   job_overwriteUrl = msg_overwriteUrl msg,
                                   job_assetConfig = msg_assetConfig msg\<rparr>))))"

text \<open>Step 1: download the asset to \<open>inputPath\<close>.\<close>

definition processMessage_download ::
  "world \<Rightarrow> job \<Rightarrow> logEventFn \<Rightarrow> string \<Rightarrow> state \<Rightarrow> (js_error + unit) \<times> state" where
  "processMessage_download w j logEvent inputPath s =
     (case downloadFile w (job_originalUrl j) of
        Inl error \<Rightarrow>
          (Inl error, logEvent (ev Failed [Txt (''Download failed: '' @ err_message error)]) s)
      | Inr fileBuffer \<Rightarrow>
          (let s1 = s\<lparr>files := (files s)(inputPath \<mapsto> fileBuffer)\<rparr>;
               s2 = logEvent (ev Processing [Txt ''File downloaded'']) s1
           in (Inr (),
               logger Info
                 [Txt (''File downloaded to '' @ inputPath @ '' | Request ID: '' @
                       job_requestId j)] s2)))"

text \<open>Step 2: process the asset.\<close>

definition processMessage_process ::
  "world \<Rightarrow> job \<Rightarrow> string \<Rightarrow> logEventFn \<Rightarrow> string \<Rightarrow> state
     \<Rightarrow> (js_error + string) \<times> state" where
  "processMessage_process w j assetType logEvent inputPath s =
     (case processAsset w assetType inputPath (job_assetConfig j) (Some logEvent) s of
        (Inl error, s1) \<Rightarrow>
          (Inl error,
           logEvent (ev Failed [Txt (''Processing failed: '' @ err_message error)]) s1)
      | (Inr processedPath, s1) \<Rightarrow>
          (let s2 = logEvent
                      (ev Processing [Txt ''Processing complete, uploading to DO Spaces'']) s1
           in (Inr processedPath,
               logger Info [Txt (''Processing complete | Request ID: '' @ job_requestId j)] s2)))"

text \<open>Step 3: read the processed file into a buffer.\<close>

definition processMessage_read :: "string \<Rightarrow> state \<Rightarrow> (js_error + buffer) \<times> state" where
  "processMessage_read processedPath s =
     (case files s processedPath of
        None \<Rightarrow>
          (Inl (enoent processedPath),
           logger Err [Txt ''Failed to read processed file'',
                       Txt (err_message (enoent processedPath)),
                       Txt (err_stack (enoent processedPath))] s)
      | Some processedBuffer \<Rightarrow> (Inr processedBuffer, s))"

text \<open>Step 4: check that the original asset is still public, then upload. The block ends
  in one of three ways: it throws, it executes \<open>return\<close> (the asset is gone), or control
  continues after it.\<close>

datatype step_exit = Returned | Continues

definition processMessage_upload ::
  "world \<Rightarrow> job \<Rightarrow> string \<Rightarrow> logEventFn \<Rightarrow> buffer \<Rightarrow> state
     \<Rightarrow> (js_error + step_exit) \<times> state" where
  "processMessage_upload w j assetType logEvent processedBuffer s =
     (if \<not> publicAssetExists w (job_originalUrl j) then
        (let s1 = logEvent
                    (ev Completed
                       [Txt ''Original asset deleted by user. Skipping final upload.'']) s
         in (Inr Returned,
             logger Info [Txt (''Skipping upload; asset deleted at '' @ job_originalUrl j)] s1))
      else
        (let contentType = getContentType assetType
         in case uploadFile w (job_overwriteUrl j) processedBuffer contentType s of
              (Inl error, s1) \<Rightarrow>
                (Inl error,
                 logEvent (ev Failed [Txt (''Upload failed: '' @ err_message error)]) s1)
            | (Inr u, s1) \<Rightarrow>
                (let s2 = logEvent (ev Completed [Txt ''Upload successful'']) s1
                 in (Inr Continues,
                     logger Info
                       [Txt (''Uploaded file to '' @
                             (case job_overwriteUrl j of None \<Rightarrow> ''undefined'' | Some u \<Rightarrow> u) @
                             '' | Request ID: '' @ job_requestId j)] s2))))"

text \<open>Step 5: remove the temporary files. One file of the two: \<open>existsSync\<close>, then
  \<open>unlinkSync\<close>.\<close>

definition cleanup_file ::
  "world \<Rightarrow> string \<Rightarrow> string \<Rightarrow> string \<Rightarrow> string \<Rightarrow> state \<Rightarrow> (js_error + unit) \<times> state" where
  "cleanup_file w p deleted missing requestId s =
     (if files s p \<noteq> None then
        (case unlink w p s of
           (Inl error, s1) \<Rightarrow> (Inl error, s1)
         | (Inr u, s1) \<Rightarrow>
             (Inr (), logger Info [Txt (deleted @ '' | Request ID: '' @ requestId)] s1))
      else (Inr (), logger Warn [Txt (missing @ '' | Request ID: '' @ requestId)] s))"

definition processMessage_cleanup :: "world \<Rightarrow> job \<Rightarrow> string \<Rightarrow> string \<Rightarrow> state \<Rightarrow> state" where
  "processMessage_cleanup w j inputPath processedPath s =
     (let caught = (\<lambda>error s'.
            logger Err [Txt (''Error during cleanup | Request ID: '' @ job_requestId j),
                        Txt (err_message error), Txt (err_stack error)] s')
      in case cleanup_file w inputPath ''Deleted temp input file''
                ''Temp input file not found for cleanup'' (job_requestId j) s of
           (Inl error, s1) \<Rightarrow> caught error s1
         | (Inr u, s1) \<Rightarrow>
             (case cleanup_file w processedPath ''Deleted processed file''
                     ''Processed file not found for cleanup'' (job_requestId j) s1 of
                (Inl error, s2) \<Rightarrow> caught error s2
              | (Inr u, s2) \<Rightarrow> s2))"

text \<open>The job after classification: open the request log, then steps 1 to 5.\<close>

definition processMessage_job ::
  "world \<Rightarrow> job \<Rightarrow> string \<Rightarrow> state \<Rightarrow> (js_error + unit) \<times> state" where
  "processMessage_job w j assetType s =
     (let s1 = createLogger (job_requestId j) (job_source j) (job_originalUrl j)
                 (job_assetConfig j) s;
          logEvent = logEventCurried (job_requestId j) (job_source j) (job_originalUrl j);
          s2 = logEvent (ev Pending [Txt ''Processing started'']) s1;
          tempDir = path_join (tmpdir w) ''asset-worker'';
          inputPath = path_join tempDir (''input-'' @ now_input w)
      in case processMessage_download w j logEvent inputPath s2 of
           (Inl error, s3) \<Rightarrow> (Inl error, s3)
         | (Inr u, s3) \<Rightarrow>
             (case processMessage_process w j assetType logEvent inputPath s3 of
                (Inl error, s4) \<Rightarrow> (Inl error, s4)
              | (Inr processedPath, s4) \<Rightarrow>
                  (case processMessage_read processedPath s4 of
                     (Inl error, s5) \<Rightarrow> (Inl error, s5)
                   | (Inr processedBuffer, s5) \<Rightarrow>
                       (case processMessage_upload w j assetType logEvent processedBuffer s5 of
                          (Inl error, s6) \<Rightarrow> (Inl error, s6)
                        | (Inr Returned, s6) \<Rightarrow> (Inr (), s6)
                        | (Inr Continues, s6) \<Rightarrow>
                            (Inr (), processMessage_cleanup w j inputPath processedPath s6)))))"

definition processMessage :: "world \<Rightarrow> content \<Rightarrow> state \<Rightarrow> (js_error + unit) \<times> state" where
  "processMessage w msgContent s =
     (case parse_message msgContent of
        Inl error \<Rightarrow>
          (Inr (),
           logger Err [Txt ''Message parsing failed'', Txt (err_message error),
                       Txt (err_stack error)] s)
      | Inr j \<Rightarrow>
          (let (assetType, s1) = getAssetType w (job_originalUrl j) s
           in if assetType = ''unknown'' then
                (Inr (),
                 logger Err
                   [Txt (''Could not determine asset type for URL: '' @ job_originalUrl j)] s1)
              else processMessage_job w j assetType s1))"

subsection \<open>\<open>startWorker\<close>: the consumer callback\<close>

datatype channel_call = Ack | Nack bool bool

text \<open>\<open>JSON.parse(msg.content.toString()).requestId\<close> inside a template literal.\<close>

definition requestId_of :: "content \<Rightarrow> js_error + string" where
  "requestId_of msgContent =
     (case msgContent of
        Malformed e \<Rightarrow> Inl e
      | JsonNull \<Rightarrow> Inl (type_Error ''null is not an object (evaluating JSON.parse(...).requestId)'')
      | JsonValue msg \<Rightarrow> Inr (case msg_requestId msg of None \<Rightarrow> ''undefined'' | Some r \<Rightarrow> r))"

text \<open>
  The callback for one delivery (\<open>None\<close> is the \<open>null\<close> of a cancelled consumer). It
  returns the calls made on the channel and the error, if any, with which the callback's
  own promise rejects. The log line after \<open>channel.ack\<close> parses the content again, inside
  the \<open>try\<close>; the \<open>catch\<close> block parses it once more before \<open>channel.nack\<close>, so a content
  that does not parse leaves the \<open>catch\<close> block before the \<open>nack\<close>.
\<close>

definition startWorker ::
  "world \<Rightarrow> content option \<Rightarrow> state \<Rightarrow> (channel_call list \<times> js_error option) \<times> state" where
  "startWorker w delivery s =
     (case delivery of
        None \<Rightarrow> (([], None), s)
      | Some msg \<Rightarrow>
          (case processMessage w msg s of
             (Inr u, s1) \<Rightarrow>
               (case requestId_of msg of
                  Inr rid \<Rightarrow>
                    (([Ack], None),
                     logger Info [Txt (''Job acknowledged | Request ID: '' @ rid)] s1)
                | Inl e \<Rightarrow> (([Ack], Some e), s1))
           | (Inl error, s1) \<Rightarrow>
               (case requestId_of msg of
                  Inr rid \<Rightarrow>
                    (([Nack False False], None),
                     logger Err [Txt (''Error processing message | Request ID: '' @ rid),
                                 Txt (err_stack error)] s1)
                | Inl e \<Rightarrow> (([], Some e), s1))))"

subsection \<open>\<open>createAssetJob\<close> (\<open>controllers/assetController.ts\<close>)\<close>

text \<open>The request body: the three required fields and, of the rest that is spread into
  the message, the two keys the worker reads.\<close>

record request_body =
  body_source :: "string option"
  body_originalUrl :: "string option"
  body_overwriteUrl :: "string option"
  body_requestId :: "string option"
  body_assetConfig :: "AssetConfig option"

datatype response = Response nat "(string \<times> string) list"

text \<open>It returns the HTTP response and the message published to the queue, if any;
  \<open>...extraOptions\<close> comes last in the message, so a \<open>requestId\<close> of the body wins.\<close>

definition createAssetJob ::
  "world \<Rightarrow> request_body \<Rightarrow> state \<Rightarrow> (response \<times> content option) \<times> state" where
  "createAssetJob w body s =
     (if falsy (body_source body) \<or> falsy (body_originalUrl body) \<or> falsy (body_overwriteUrl body)
      then
        ((Response 400 [(''error'', ''source, originalUrl, and overwriteUrl are required.'')],
          None),
         logger ConsoleLog [Txt ''{ source, originalUrl, overwriteUrl }'']
           (logger Err [Txt ''Missing required fields''] s))
      else
        (let requestId = uuidv4 w;
             config = \<lparr>msg_requestId = (case body_requestId body of
                                           None \<Rightarrow> Some requestId | Some r \<Rightarrow> Some r),
                       msg_source = body_source body,
                       msg_originalUrl = body_originalUrl body,
                       msg_overwriteUrl = body_overwriteUrl body,
                       msg_assetConfig = body_assetConfig body\<rparr>
         in case connectRabbitMQ w of
              Some err \<Rightarrow>
                ((Response 500 [(''error'', ''Failed to create asset job'')], None),
                 logger Err [Txt ''Error in createAssetJob:'', Txt (err_message err),
                             Txt (err_stack err)] s)
            | None \<Rightarrow>
                ((Response 200 [(''status'', ''queued''), (''requestId'', requestId)],
                  Some (JsonValue config)),
                 logger Info
                   [Txt (''Asset job published to RabbitMQ | Request ID: '' @ requestId)] s)))"

section \<open>What a run leaves behind\<close>

text \<open>The request entries of one \<open>requestId\<close> in the log document of one
  \<open>originalUrl\<close>, the events of the first of them (the one \<open>$push\<close> writes to), and their
  statuses.\<close>

definition request_entries :: "state \<Rightarrow> string \<Rightarrow> string \<Rightarrow> IRequestLog list" where
  "request_entries s originalUrl requestId =
     filter (\<lambda>req. req_requestId req = requestId)
       (case logs s originalUrl of None \<Rightarrow> [] | Some rs \<Rightarrow> rs)"

definition events_of :: "state \<Rightarrow> string \<Rightarrow> string \<Rightarrow> LogEventCurriedProps list" where
  "events_of s originalUrl requestId =
     (case request_entries s originalUrl requestId of [] \<Rightarrow> [] | req # rest \<Rightarrow> req_events req)"

definition statuses :: "state \<Rightarrow> string \<Rightarrow> string \<Rightarrow> LogStatus list" where
  "statuses s originalUrl requestId = map ev_status (events_of s originalUrl requestId)"

text \<open>What a run from \<open>s\<close> to \<open>s'\<close> added: the statuses of the events it logged for a
  request, and the calls it made.\<close>

definition new_statuses :: "state \<Rightarrow> state \<Rightarrow> string \<Rightarrow> string \<Rightarrow> LogStatus list" where
  "new_statuses s s' originalUrl requestId =
     drop (length (statuses s originalUrl requestId)) (statuses s' originalUrl requestId)"

definition new_calls :: "state \<Rightarrow> state \<Rightarrow> call list" where
  "new_calls s s' = drop (length (calls s)) (calls s')"

text \<open>The validity conditions in the words of the specification, to be compared with the
  tests the executors make.\<close>

definition crop_valid :: "CropParams \<Rightarrow> int \<Rightarrow> int \<Rightarrow> bool" where
  "crop_valid c imgWidth imgHeight =
     (crop_x c \<ge> 0 \<and> crop_y c \<ge> 0 \<and> crop_x c + crop_width c \<le> imgWidth
      \<and> crop_y c + crop_height c \<le> imgHeight)"

definition trim_valid :: "TrimParams \<Rightarrow> real \<Rightarrow> bool" where
  "trim_valid t duration =
     (trim_start t \<ge> 0 \<and> trim_end t \<le> duration \<and> trim_start t < trim_end t)"

text \<open>The length of what an ffmpeg command encodes from an input of the given duration:
  \<open>setDuration\<close> fixes it, \<open>setStartTime\<close> alone drops the part before the start, and a
  command with neither encodes the whole input.\<close>

definition encoded_duration :: "FfmpegCommand \<Rightarrow> real \<Rightarrow> real" where
  "encoded_duration cmd duration =
     (case cmd_duration cmd of
        Some d \<Rightarrow> d
      | None \<Rightarrow> (case cmd_startTime cmd of Some t \<Rightarrow> duration - t | None \<Rightarrow> duration))"

definition endsWith :: "string \<Rightarrow> string \<Rightarrow> bool" where
  "endsWith str suffix =
     (length suffix \<le> length str \<and> drop (length str - length suffix) str = suffix)"

text \<open>A call an image job may make: a WebP encoding into a \<open>.webp\<close> file, or a PUT
  declared as JPEG.\<close>

fun image_call_ok :: "call \<Rightarrow> bool" where
  "image_call_ok (Put url body contentType) = (contentType = ''image/jpeg'')"
| "image_call_ok (SharpToFile inputPath extract quality outputPath) = endsWith outputPath ''.webp''"
| "image_call_ok (FfmpegSave inputPath cmd outputPath) = False"
| "image_call_ok (Ghostscript inputPath outputPath) = False"

section \<open>Sample inputs\<close>

definition sample_error :: js_error where
  "sample_error = JsError ''boom'' ''Error: boom''"

definition world0 :: world where
  "world0 =
     \<lparr>tmpdir = ''/tmp'', cwd = ''/app'', now_input = ''1700000000000'',
      now_pdf = ''1700000000500'', uuidv4 = ''0b5e1c'', connectRabbitMQ = None,
      head_type = (\<lambda>url. HeadResponse True (Some ''image/jpeg'')),
      head_exists = (\<lambda>url. HeadResponse True None),
      http_get = (\<lambda>url. GetResponse True [1, 2, 3]),
      http_put = (\<lambda>url body ct. PutResponse True),
      sharp_metadata = (\<lambda>b. Inr \<lparr>md_width = Some 800, md_height = Some 600\<rparr>),
      sharp_toFile = (\<lambda>b rect q. Inr [4, 5]),
      ffprobe = (\<lambda>b. Inr \<lparr>streams = [\<lparr>codec_type = ''video'', st_width = Some 1280,
                                          st_height = Some 720\<rparr>],
                            format_duration = Some 30\<rparr>),
      ffmpeg_save = (\<lambda>b c. Inr [6]),
      ghostscript = (\<lambda>b. Inr ('''', Some [7])),
      unlink_error = (\<lambda>p. None)\<rparr>"

definition state0 :: state where
  "state0 = \<lparr>files = Map.empty, logs = Map.empty, oplog = [], calls = []\<rparr>"

definition sample_message :: "AssetConfig option \<Rightarrow> content" where
  "sample_message cfg =
     JsonValue \<lparr>msg_requestId = Some ''req-1'', msg_source = Some ''cms'',
                msg_originalUrl = Some ''https://x/a.jpg'',
                msg_overwriteUrl = Some ''https://x/a-out.jpg'', msg_assetConfig = cfg\<rparr>"

definition image_config :: "CropParams option \<Rightarrow> bool option \<Rightarrow> AssetConfig" where
  "image_config crop compress =
     \<lparr>imageProps = Some \<lparr>img_cropParams = crop, img_compress = compress\<rparr>,
      videoProps = None, pdfProps = None\<rparr>"

definition scenario1_body :: request_body where
  "scenario1_body =
     \<lparr>body_source = Some ''cms'', body_originalUrl = Some ''https://x/a.jpg'',
      body_overwriteUrl = Some ''https://x/a-out.jpg'', body_requestId = None,
      body_assetConfig = None\<rparr>"

definition world_deleted :: world where
  "world_deleted = world0\<lparr>head_exists := (\<lambda>url. HeadResponse False None)\<rparr>"

definition world_unreadable :: world where
  "world_unreadable = world0\<lparr>sharp_metadata := (\<lambda>b. Inl sample_error)\<rparr>"

definition state_with :: "string \<Rightarrow> buffer \<Rightarrow> state" where
  "state_with p input =
     createLogger ''req-1'' ''cms'' ''https://x/a.jpg'' None
       (state0\<lparr>files := [p \<mapsto> input]\<rparr>)"

definition sample_log :: "logEventFn option" where
  "sample_log = Some (logEventCurried ''req-1'' ''cms'' ''https://x/a.jpg'')"

definition crop_inside :: CropParams where
  "crop_inside = \<lparr>crop_x = 0, crop_y = 0, crop_width = 10, crop_height = 10\<rparr>"


definition video_config ::
  "CropParams option \<Rightarrow> TrimParams option \<Rightarrow> bool option \<Rightarrow> AssetConfig" where
  "video_config crop trim compression =
     \<lparr>imageProps = None,
      videoProps = Some \<lparr>vid_trimParams = trim, vid_cropParams = crop,
                         vid_compression = compression\<rparr>,
      pdfProps = None\<rparr>"

definition pdf_config :: "bool option \<Rightarrow> AssetConfig" where
  "pdf_config compress =
     \<lparr>imageProps = None, videoProps = None, pdfProps = Some \<lparr>pdf_compress = compress\<rparr>\<rparr>"

definition sample_job :: "AssetConfig option \<Rightarrow> job" where
  "sample_job cfg =
     \<lparr>job_requestId = ''req-1'', job_source = ''cms'', job_originalUrl = ''https://x/a.jpg'',
      job_overwriteUrl = Some ''https://x/a-out.jpg'', job_assetConfig = cfg\<rparr>"

definition world_video :: world where
  "world_video = world0\<lparr>head_type := (\<lambda>url. HeadResponse True (Some ''video/mp4''))\<rparr>"

definition world_video_unprobed :: world where
  "world_video_unprobed = world_video\<lparr>ffprobe := (\<lambda>b. Inl sample_error)\<rparr>"

definition world_unknown :: world where
  "world_unknown = world0\<lparr>head_type := (\<lambda>url. HeadResponse True (Some ''text/html''))\<rparr>"

definition world_offline :: world where
  "world_offline = world0\<lparr>http_get := (\<lambda>url. GetError sample_error)\<rparr>"

definition world_codecs_fail :: world where
  "world_codecs_fail =
     world0\<lparr>sharp_toFile := (\<lambda>b rect q. Inl sample_error),
            ffmpeg_save := (\<lambda>b c. Inl sample_error),
            ghostscript := (\<lambda>b. Inl sample_error)\<rparr>"

text \<open>Scenario 1 of the specification: the intake payload has the three required fields
  and nothing else, and every collaborator succeeds. The consumer starts from the state
  the intake left and handles the message the intake published.\<close>

definition scenario1_run :: "(channel_call list \<times> js_error option) \<times> state" where
  "scenario1_run =
     startWorker world0 (snd (fst (createAssetJob world0 scenario1_body state0)))
       (snd (createAssetJob world0 scenario1_body state0))"

text \<open>An image job whose original asset is gone when the upload is due, and the same job
  when the asset is still there.\<close>

definition skip_run :: "(channel_call list \<times> js_error option) \<times> state" where
  "skip_run =
     startWorker world_deleted (Some (sample_message (Some (image_config None None)))) state0"

definition upload_run :: "(channel_call list \<times> js_error option) \<times> state" where
  "upload_run =
     startWorker world0 (Some (sample_message (Some (image_config None None)))) state0"

text \<open>A crop is requested and the probe fails: \<open>image.metadata()\<close> rejects for an image,
  \<open>ffprobe\<close> fails for a video.\<close>

definition unreadable_run :: "(channel_call list \<times> js_error option) \<times> state" where
  "unreadable_run =
     startWorker world_unreadable
       (Some (sample_message (Some (image_config (Some crop_inside) None)))) state0"

definition unprobed_run :: "(channel_call list \<times> js_error option) \<times> state" where
  "unprobed_run =
     startWorker world_video_unprobed
       (Some (sample_message (Some (video_config (Some crop_inside) None None)))) state0"

definition world_pdf_unreliable :: world where
  "world_pdf_unreliable =
     world0\<lparr>head_type := (\<lambda>url. HeadResponse True (Some ''application/pdf'')),
            http_get := (\<lambda>url. GetResponse True (replicate 51201 0)),
            ghostscript := (\<lambda>b. Inl sample_error)\<rparr>"

definition world_upload_fails :: world where
  "world_upload_fails = world0\<lparr>http_put := (\<lambda>url body ct. PutResponse False)\<rparr>"

text \<open>A message whose JSON lacks the \<open>requestId\<close> field.\<close>

definition message_without_requestId :: content where
  "message_without_requestId =
     JsonValue \<lparr>msg_requestId = None, msg_source = Some ''cms'',
                msg_originalUrl = Some ''https://x/a.jpg'',
                msg_overwriteUrl = Some ''https://x/a-out.jpg'',
                msg_assetConfig = Some (image_config None None)\<rparr>"




section \<open>Logging leaves files and calls alone\<close>

lemma logger_frame [simp]:
  "files (logger l m s) = files s"
  "logs (logger l m s) = logs s"
  "calls (logger l m s) = calls s"
  by (simp_all add: logger_def)

lemma request_entries_frame [simp]:
  "request_entries (logger l m s) u r = request_entries s u r"
  "request_entries (s\<lparr>calls := c\<rparr>) u r = request_entries s u r"
  "request_entries (s\<lparr>files := f\<rparr>) u r = request_entries s u r"
  by (simp_all add: request_entries_def)

lemma statuses_frame [simp]:
  "statuses (logger l m s) u r = statuses s u r"
  "statuses (s\<lparr>calls := c\<rparr>) u r = statuses s u r"
  "statuses (s\<lparr>files := f\<rparr>) u r = statuses s u r"
  by (simp_all add: statuses_def events_of_def)

lemma logEventCurried_frame [simp]:
  "files (logEventCurried r src u p s) = files s"
  "calls (logEventCurried r src u p s) = calls s"
  by (simp_all add: logEventCurried_def Let_def split: option.splits)

lemma filter_push_event:
  "filter (\<lambda>req. req_requestId req = r) (push_event r e rs) =
     (case filter (\<lambda>req. req_requestId req = r) rs of
        [] \<Rightarrow> []
      | x # xs \<Rightarrow> x\<lparr>req_events := req_events x @ [e]\<rparr> # xs)"
  by (induction rs) auto

lemma request_entries_logEvent:
  "request_entries (logEventCurried r src u p s) u r =
     (case request_entries s u r of
        [] \<Rightarrow> []
      | x # xs \<Rightarrow> x\<lparr>req_events := req_events x @ [stored_event p]\<rparr> # xs)"
  by (simp add: request_entries_def logEventCurried_def Let_def filter_push_event
           split: option.splits)

lemma entries_logEvent_empty [simp]:
  "(request_entries (logEventCurried r src u p s) u r = []) = (request_entries s u r = [])"
  by (simp add: request_entries_logEvent split: list.splits)

lemma statuses_logEvent [simp]:
  "request_entries s u r \<noteq> [] \<Longrightarrow>
     statuses (logEventCurried r src u p s) u r = statuses s u r @ [ev_status p]"
  by (simp add: statuses_def events_of_def request_entries_logEvent stored_event_def
           split: list.splits)

lemma emit_Some [simp]: "emit (Some f) p s = f p s"
  by (simp add: emit_def)

lemma ev_status_simps [simp]:
  "ev_status (ev st m) = st"
  "ev_status (error_event prefix e) = Warning"
  by (simp_all add: ev_def error_event_def)

lemma new_calls_append [simp]: "calls s' = calls s @ xs \<Longrightarrow> new_calls s s' = xs"
  by (simp add: new_calls_def)

lemma new_statuses_append [simp]:
  "statuses s' u r = statuses s u r @ xs \<Longrightarrow> new_statuses s s' u r = xs"
  by (simp add: new_statuses_def)

section \<open>\<open>createLogger\<close>\<close>

lemma createLogger_frame [simp]:
  "files (createLogger r src u c s) = files s"
  "calls (createLogger r src u c s) = calls s"
  by (simp_all add: createLogger_def Let_def split: option.splits)

lemma find_None_filter: "(find P xs = None) = (filter P xs = [])"
  by (induction xs) auto

lemma find_append_single:
  "find P (xs @ [x]) =
     (case find P xs of Some y \<Rightarrow> Some y | None \<Rightarrow> if P x then Some x else None)"
  by (induction xs) auto

lemma request_entries_createLogger:
  "request_entries (createLogger r src u c s) u r =
     (if request_entries s u r = []
      then [\<lparr>req_requestId = r, req_source = src, req_processingConfig = c, req_events = []\<rparr>]
      else request_entries s u r)"
proof (cases "logs s u")
  case None
  then show ?thesis by (simp add: request_entries_def createLogger_def)
next
  case (Some rs)
  show ?thesis
  proof (cases "find (\<lambda>req. req_requestId req = r) rs")
    case None
    then have "filter (\<lambda>req. req_requestId req = r) rs = []"
      by (simp add: find_None_filter)
    then show ?thesis using Some None by (simp add: request_entries_def createLogger_def)
  next
    case (Some a)
    then have "filter (\<lambda>req. req_requestId req = r) rs \<noteq> []"
      by (simp add: find_None_filter [symmetric])
    then show ?thesis using \<open>logs s u = Some rs\<close> Some
      by (simp add: request_entries_def createLogger_def)
  qed
qed

lemma entries_createLogger_nonempty [simp]:
  "request_entries (createLogger r src u c s) u r \<noteq> []"
  by (simp add: request_entries_createLogger)

lemma statuses_createLogger [simp]:
  "statuses (createLogger r src u c s) u r = statuses s u r"
  by (simp add: statuses_def events_of_def request_entries_createLogger)

lemma createLogger_again:
  "createLogger r src' u c' (createLogger r src u c s) = createLogger r src u c s"
  by (simp add: createLogger_def Let_def find_append_single split: option.splits)

section \<open>\<open>processImage\<close>\<close>

lemma processImage_crop_frame [simp]:
  "files (snd (processImage_crop w p crop (Some (logEventCurried r src u)) s)) = files s"
  "calls (snd (processImage_crop w p crop (Some (logEventCurried r src u)) s)) = calls s"
  "(request_entries (snd (processImage_crop w p crop (Some (logEventCurried r src u)) s)) u r = [])
     = (request_entries s u r = [])"
  by (simp_all add: processImage_crop_def Let_def split: option.splits sum.splits)

lemma processImage_crop_None [simp]: "processImage_crop w p None lf s = (Inr None, s)"
  by (simp add: processImage_crop_def)

lemma processImage_crop_Some:
  assumes "files s p = Some input" and "sharp_metadata w input = Inr md"
      and "request_entries s u r \<noteq> []"
      and "imgWidth = int (case md_width md of None \<Rightarrow> 0 | Some n \<Rightarrow> n)"
      and "imgHeight = int (case md_height md of None \<Rightarrow> 0 | Some n \<Rightarrow> n)"
  shows "fst (processImage_crop w p (Some cp) (Some (logEventCurried r src u)) s) =
           Inr (Some (if crop_valid cp imgWidth imgHeight then cp
                      else \<lparr>crop_x = 0, crop_y = 0, crop_width = imgWidth,
                            crop_height = imgHeight\<rparr>))"
    and "statuses (snd (processImage_crop w p (Some cp) (Some (logEventCurried r src u)) s)) u r =
           statuses s u r @ (if crop_valid cp imgWidth imgHeight then [] else [Warning])"
  using assms by (auto simp: processImage_crop_def crop_valid_def Let_def)

lemma processImage_unfold:
  assumes "fst (processImage_crop w p crop lf s) = Inr extract"
      and "files (snd (processImage_crop w p crop lf s)) p = Some input"
  shows "processImage w p compress crop lf s =
           (let s1 = snd (processImage_crop w p crop lf s);
                q = (if compress = Some True \<and> length input > 512000 then 60 else 100);
                s2 = s1\<lparr>calls := calls s1 @ [SharpToFile p extract q (processImage_outputPath w p)]\<rparr>
            in case sharp_toFile w input extract q of
                 Inl e \<Rightarrow> (Inl e, s2)
               | Inr out \<Rightarrow>
                   (Inr (processImage_outputPath w p),
                    s2\<lparr>files := (files s2)(processImage_outputPath w p \<mapsto> out)\<rparr>))"
  using assms
  by (cases "processImage_crop w p crop lf s") (simp add: processImage_def Let_def truthy_def)

lemma processImage_crop_error:
  assumes "fst (processImage_crop w p crop lf s) = Inl e"
  shows "processImage w p compress crop lf s = (Inl e, snd (processImage_crop w p crop lf s))"
  using assms
  by (cases "processImage_crop w p crop lf s") (simp add: processImage_def Let_def)

lemma endsWith_append [simp]: "endsWith (xs @ ys) ys"
  by (simp add: endsWith_def)

lemma processImage_outputPath_webp [simp]: "endsWith (processImage_outputPath w p) ''.webp''"
proof -
  have "processImage_outputPath w p =
          (cwd w @ ''/'' @ ''processed'' @ ''/'' @ ''processed-'' @
           basename_ext p (extname p)) @ ''.webp''"
    by (simp add: processImage_outputPath_def path_join_def Let_def)
  then show ?thesis by (simp only: endsWith_append)
qed

section \<open>\<open>processVideo\<close>\<close>

lemma processVideo_validCrop_frame [simp]:
  "files (snd (processVideo_validCrop w p crop (Some (logEventCurried r src u)) s)) = files s"
  "calls (snd (processVideo_validCrop w p crop (Some (logEventCurried r src u)) s)) = calls s"
  "(request_entries (snd (processVideo_validCrop w p crop (Some (logEventCurried r src u)) s)) u r = [])
     = (request_entries s u r = [])"
  by (simp_all add: processVideo_validCrop_def Let_def split: option.splits sum.splits prod.splits)

lemma processVideo_validTrim_frame [simp]:
  "files (snd (processVideo_validTrim w p trim (Some (logEventCurried r src u)) s)) = files s"
  "calls (snd (processVideo_validTrim w p trim (Some (logEventCurried r src u)) s)) = calls s"
  "(request_entries (snd (processVideo_validTrim w p trim (Some (logEventCurried r src u)) s)) u r = [])
     = (request_entries s u r = [])"
  by (simp_all add: processVideo_validTrim_def Let_def split: option.splits sum.splits)

lemma processVideo_validCrop_statuses:
  "request_entries s u r \<noteq> [] \<Longrightarrow>
   statuses (snd (processVideo_validCrop w p crop (Some (logEventCurried r src u)) s)) u r =
     statuses s u r @
       (if crop \<noteq> None \<and> \<not> fst (processVideo_validCrop w p crop (Some (logEventCurried r src u)) s)
        then [Warning] else [])"
  by (simp add: processVideo_validCrop_def Let_def split: option.splits sum.splits prod.splits)

lemma processVideo_validTrim_statuses:
  "request_entries s u r \<noteq> [] \<Longrightarrow>
   statuses (snd (processVideo_validTrim w p trim (Some (logEventCurried r src u)) s)) u r =
     statuses s u r @
       (if trim \<noteq> None \<and> \<not> fst (processVideo_validTrim w p trim (Some (logEventCurried r src u)) s)
        then [Warning] else [])"
  by (simp add: processVideo_validTrim_def Let_def split: option.splits sum.splits)


lemma processVideo_validCrop_unprobed:
  "getVideoDimensions w p s = Inl e \<Longrightarrow> fst (processVideo_validCrop w p crop lf s) = False"
  by (simp add: processVideo_validCrop_def split: option.splits)

lemma processVideo_validTrim_probed:
  "getVideoDuration w p s = Inr d \<Longrightarrow>
   fst (processVideo_validTrim w p (Some tp) lf s) = trim_valid tp d"
  by (auto simp: processVideo_validTrim_def trim_valid_def Let_def)

lemma processVideo_validTrim_unprobed:
  "getVideoDuration w p s = Inl e \<Longrightarrow> fst (processVideo_validTrim w p trim lf s) = False"
  by (simp add: processVideo_validTrim_def split: option.splits)

lemma processVideo_validTrim_files:
  "files s1 = files s \<Longrightarrow>
   fst (processVideo_validTrim w p trim lf s1) = fst (processVideo_validTrim w p trim lf s)"
  by (simp add: processVideo_validTrim_def getVideoDuration_def Let_def
           split: option.splits sum.splits)

lemma processVideo_trim_frame [simp]:
  "files (snd (processVideo_trim c trim vt (Some (logEventCurried r src u)) s)) = files s"
  "calls (snd (processVideo_trim c trim vt (Some (logEventCurried r src u)) s)) = calls s"
  "(request_entries (snd (processVideo_trim c trim vt (Some (logEventCurried r src u)) s)) u r = [])
     = (request_entries s u r = [])"
  by (simp_all add: processVideo_trim_def split: option.splits)

lemma processVideo_cropFilter_frame [simp]:
  "files (snd (processVideo_cropFilter c crop vc (Some (logEventCurried r src u)) s)) = files s"
  "calls (snd (processVideo_cropFilter c crop vc (Some (logEventCurried r src u)) s)) = calls s"
  "(request_entries (snd (processVideo_cropFilter c crop vc (Some (logEventCurried r src u)) s)) u r = [])
     = (request_entries s u r = [])"
  by (simp_all add: processVideo_cropFilter_def split: option.splits)

lemma processVideo_compress_frame [simp]:
  "files (snd (processVideo_compress p c compression (Some (logEventCurried r src u)) s)) = files s"
  "calls (snd (processVideo_compress p c compression (Some (logEventCurried r src u)) s)) = calls s"
  "(request_entries (snd (processVideo_compress p c compression (Some (logEventCurried r src u)) s)) u r = [])
     = (request_entries s u r = [])"
  by (simp_all add: processVideo_compress_def Let_def split: option.splits)

lemma processVideo_trim_statuses:
  "request_entries s u r \<noteq> [] \<Longrightarrow>
   statuses (snd (processVideo_trim c trim vt (Some (logEventCurried r src u)) s)) u r =
     statuses s u r @ (if trim \<noteq> None \<and> \<not> vt then [Warning] else [])"
  by (simp add: processVideo_trim_def split: option.splits)

lemma processVideo_cropFilter_statuses:
  "request_entries s u r \<noteq> [] \<Longrightarrow>
   statuses (snd (processVideo_cropFilter c crop vc (Some (logEventCurried r src u)) s)) u r =
     statuses s u r @ (if crop \<noteq> None \<and> \<not> vc then [Warning] else [])"
  by (simp add: processVideo_cropFilter_def split: option.splits)

lemma processVideo_compress_statuses:
  "request_entries s u r \<noteq> [] \<Longrightarrow> files s p = Some input \<Longrightarrow>
   statuses (snd (processVideo_compress p c compression (Some (logEventCurried r src u)) s)) u r =
     statuses s u r @
       (if compression = Some True \<and> length input > 1572864 then [] else [Processing])"
  by (simp add: processVideo_compress_def Let_def truthy_def)

lemma processVideo_trim_fst:
  "fst (processVideo_trim c trim vt lf s) =
     (case trim of
        Some tp \<Rightarrow> if vt then c\<lparr>cmd_startTime := Some (trim_start tp),
                                  cmd_duration := Some (trim_end tp - trim_start tp)\<rparr> else c
      | None \<Rightarrow> c)"
  by (simp add: processVideo_trim_def split: option.splits)

lemma processVideo_cropFilter_fst:
  "fst (processVideo_cropFilter c crop vc lf s) =
     (case crop of
        Some cp \<Rightarrow> if vc then c\<lparr>cmd_videoFilters := cmd_videoFilters c @ [crop_filter cp]\<rparr> else c
      | None \<Rightarrow> c)"
  by (simp add: processVideo_cropFilter_def split: option.splits)

lemma processVideo_compress_fst:
  "files s p = Some input \<Longrightarrow>
   fst (processVideo_compress p c compression lf s) =
     (if compression = Some True \<and> length input > 1572864
      then c\<lparr>cmd_outputOptions := cmd_outputOptions c @ [''-crf 32'']\<rparr> else c)"
  by (simp add: processVideo_compress_def Let_def truthy_def)

lemma processVideo_command_frame [simp]:
  "files (snd (processVideo_command p crop vc trim vt c (Some (logEventCurried r src u)) s)) = files s"
  "calls (snd (processVideo_command p crop vc trim vt c (Some (logEventCurried r src u)) s)) = calls s"
  by (simp_all add: processVideo_command_def Let_def case_prod_beta)

lemma processVideo_command_statuses:
  "request_entries s u r \<noteq> [] \<Longrightarrow> files s p = Some input \<Longrightarrow>
   statuses (snd (processVideo_command p crop vc trim vt c (Some (logEventCurried r src u)) s)) u r =
     statuses s u r @ (if trim \<noteq> None \<and> \<not> vt then [Warning] else [])
       @ (if crop \<noteq> None \<and> \<not> vc then [Warning] else [])
       @ (if c = Some True \<and> length input > 1572864 then [] else [Processing])"
  by (simp add: processVideo_command_def Let_def case_prod_beta processVideo_trim_statuses
        processVideo_cropFilter_statuses processVideo_compress_statuses [where input = input])

lemma processVideo_command_fst:
  assumes "files s p = Some input"
  shows "fst (processVideo_command p crop vc trim vt c (Some (logEventCurried r src u)) s) =
           \<lparr>cmd_videoCodec = ''libx264'',
            cmd_startTime =
              (case trim of Some tp \<Rightarrow> if vt then Some (trim_start tp) else None | None \<Rightarrow> None),
            cmd_duration =
              (case trim of Some tp \<Rightarrow> if vt then Some (trim_end tp - trim_start tp) else None
               | None \<Rightarrow> None),
            cmd_videoFilters =
              (case crop of Some cp \<Rightarrow> if vc then [crop_filter cp] else [] | None \<Rightarrow> []),
            cmd_size = Some ''640x?'',
            cmd_outputOptions =
              (if c = Some True \<and> length input > 1572864 then [''-crf 32''] else [])\<rparr>"
  using assms
  by (simp add: processVideo_command_def Let_def case_prod_beta processVideo_trim_fst
        processVideo_cropFilter_fst processVideo_compress_fst [where input = input]
        split: option.splits)

lemma processVideo_unfold:
  "processVideo w p crop trim c lf s =
     (let a = processVideo_validCrop w p crop lf s;
          b = processVideo_validTrim w p trim lf (snd a);
          k = processVideo_command p crop (fst a) trim (fst b) c lf (snd b)
      in case files (snd k) p of
           None \<Rightarrow> (Inl (enoent p), snd k)
         | Some input \<Rightarrow>
             (let s4 = (snd k)\<lparr>calls := calls (snd k) @
                          [FfmpegSave p (fst k) (processVideo_outputPath w p)]\<rparr>
              in case ffmpeg_save w input (fst k) of
                   Inl err \<Rightarrow> (Inl err, s4)
                 | Inr out \<Rightarrow>
                     (Inr (processVideo_outputPath w p),
                      s4\<lparr>files := (files s4)(processVideo_outputPath w p \<mapsto> out)\<rparr>)))"
  by (simp add: processVideo_def Let_def case_prod_beta)

text \<open>One run of \<open>processVideo\<close> on an input that is there: the command it saves, the
  events it logs, its result.\<close>

lemma processVideo_run:
  assumes "files s p = Some input" and "request_entries s u r \<noteq> []"
      and "lf = Some (logEventCurried r src u)"
      and "vc = fst (processVideo_validCrop w p crop lf s)"
      and "vt = fst (processVideo_validTrim w p trim lf s)"
      and "run = processVideo w p crop trim c lf s"
      and "cmd = \<lparr>cmd_videoCodec = ''libx264'',
            cmd_startTime =
              (case trim of Some tp \<Rightarrow> if vt then Some (trim_start tp) else None | None \<Rightarrow> None),
            cmd_duration =
              (case trim of Some tp \<Rightarrow> if vt then Some (trim_end tp - trim_start tp) else None
               | None \<Rightarrow> None),
            cmd_videoFilters =
              (case crop of Some cp \<Rightarrow> if vc then [crop_filter cp] else [] | None \<Rightarrow> []),
            cmd_size = Some ''640x?'',
            cmd_outputOptions =
              (if c = Some True \<and> length input > 1572864 then [''-crf 32''] else [])\<rparr>"
  shows "new_calls s (snd run) = [FfmpegSave p cmd (processVideo_outputPath w p)]"
    and "statuses (snd run) u r = statuses s u r @
               (if crop \<noteq> None \<and> \<not> vc then [Warning] else [])
               @ (if trim \<noteq> None \<and> \<not> vt then [Warning] else [])
               @ (if trim \<noteq> None \<and> \<not> vt then [Warning] else [])
               @ (if crop \<noteq> None \<and> \<not> vc then [Warning] else [])
               @ (if c = Some True \<and> length input > 1572864 then [] else [Processing])"
    and "fst run = (case ffmpeg_save w input cmd of
                      Inl e \<Rightarrow> Inl e | Inr out \<Rightarrow> Inr (processVideo_outputPath w p))"
    and "files (snd run) = (case ffmpeg_save w input cmd of
                              Inl e \<Rightarrow> files s
                            | Inr out \<Rightarrow> (files s)(processVideo_outputPath w p \<mapsto> out))"
    and "calls (snd run) = calls s @ [FfmpegSave p cmd (processVideo_outputPath w p)]"
proof -
  let ?a = "processVideo_validCrop w p crop lf s"
  let ?b = "processVideo_validTrim w p trim lf (snd ?a)"
  let ?k = "processVideo_command p crop vc trim vt c lf (snd ?b)"
  have fa: "files (snd ?a) = files s" "calls (snd ?a) = calls s"
           "request_entries (snd ?a) u r \<noteq> []"
    using assms(2,3) by simp_all
  have vt': "fst ?b = vt"
    using processVideo_validTrim_files [OF fa(1)] assms(5) by simp
  have fb: "files (snd ?b) = files s" "calls (snd ?b) = calls s"
           "request_entries (snd ?b) u r \<noteq> []"
    using fa assms(3) by simp_all
  have fk: "files (snd ?k) = files s" "calls (snd ?k) = calls s"
    using fb assms(3) by simp_all
  have sa: "statuses (snd ?a) u r =
              statuses s u r @ (if crop \<noteq> None \<and> \<not> vc then [Warning] else [])"
    using processVideo_validCrop_statuses [OF assms(2), of w p crop src] assms(3,4) by simp
  have sb: "statuses (snd ?b) u r =
              statuses (snd ?a) u r @ (if trim \<noteq> None \<and> \<not> vt then [Warning] else [])"
    using processVideo_validTrim_statuses [OF fa(3), of w p trim src] assms(3) vt' by simp
  have ib: "files (snd ?b) p = Some input" using fb assms(1) by simp
  have sk: "statuses (snd ?k) u r =
              statuses (snd ?b) u r @ (if trim \<noteq> None \<and> \<not> vt then [Warning] else [])
                @ (if crop \<noteq> None \<and> \<not> vc then [Warning] else [])
                @ (if c = Some True \<and> length input > 1572864 then [] else [Processing])"
    using processVideo_command_statuses [OF fb(3) ib, of crop vc trim vt c src] assms(3) by simp
  have ik: "files (snd ?k) p = Some input" using fk assms(1) by simp
  have ck: "fst ?k = cmd"
    using processVideo_command_fst [OF ib, of crop vc trim vt c r src u] assms(3,7) by simp
  have run: "run = (let s4 = (snd ?k)\<lparr>calls := calls (snd ?k) @
                          [FfmpegSave p cmd (processVideo_outputPath w p)]\<rparr>
              in case ffmpeg_save w input cmd of
                   Inl err \<Rightarrow> (Inl err, s4)
                 | Inr out \<Rightarrow>
                     (Inr (processVideo_outputPath w p),
                      s4\<lparr>files := (files s4)(processVideo_outputPath w p \<mapsto> out)\<rparr>))"
    using assms(4,6) vt' ik ck
    by (simp add: processVideo_unfold [of w p crop trim c lf s] Let_def)
  show "new_calls s (snd run) = [FfmpegSave p cmd (processVideo_outputPath w p)]"
    using run fk by (simp add: Let_def split: sum.splits)
  have "statuses (snd run) u r = statuses (snd ?k) u r"
    using run by (simp add: Let_def split: sum.splits)
  then show "statuses (snd run) u r = statuses s u r @
               (if crop \<noteq> None \<and> \<not> vc then [Warning] else [])
               @ (if trim \<noteq> None \<and> \<not> vt then [Warning] else [])
               @ (if trim \<noteq> None \<and> \<not> vt then [Warning] else [])
               @ (if crop \<noteq> None \<and> \<not> vc then [Warning] else [])
               @ (if c = Some True \<and> length input > 1572864 then [] else [Processing])"
    using sa sb sk by (simp only: append_assoc)
  show "fst run = (case ffmpeg_save w input cmd of
                      Inl e \<Rightarrow> Inl e | Inr out \<Rightarrow> Inr (processVideo_outputPath w p))"
    using run by (simp add: Let_def split: sum.splits)
  show "files (snd run) = (case ffmpeg_save w input cmd of
                              Inl e \<Rightarrow> files s
                            | Inr out \<Rightarrow> (files s)(processVideo_outputPath w p \<mapsto> out))"
    using run fk by (simp add: Let_def split: sum.splits)
  show "calls (snd run) = calls s @ [FfmpegSave p cmd (processVideo_outputPath w p)]"
    using run fk by (simp add: Let_def split: sum.splits)
qed

section \<open>\<open>processPDF\<close>\<close>

lemma unlink_frame [simp]:
  "calls (snd (unlink w p s)) = calls s"
  "logs (snd (unlink w p s)) = logs s"
  "request_entries (snd (unlink w p s)) u r = request_entries s u r"
  "statuses (snd (unlink w p s)) u r = statuses s u r"
  by (simp_all add: unlink_def request_entries_def statuses_def events_of_def split: option.splits)

lemma processPDF_catch_frame [simp]:
  "fst (processPDF_catch lf buf e s) = Inr buf"
  "calls (snd (processPDF_catch (Some (logEventCurried r src u)) buf e s)) = calls s"
  "files (snd (processPDF_catch (Some (logEventCurried r src u)) buf e s)) = files s"
  by (simp_all add: processPDF_catch_def)

lemma processPDF_catch_statuses [simp]:
  "request_entries s u r \<noteq> [] \<Longrightarrow>
   statuses (snd (processPDF_catch (Some (logEventCurried r src u)) buf e s)) u r =
     statuses s u r @ [Warning]"
  by (simp add: processPDF_catch_def)

lemma processPDF_try_frame [simp]:
  "calls (snd (processPDF_try w (Some (logEventCurried r src u)) buf out s)) = calls s"
  "(request_entries (snd (processPDF_try w (Some (logEventCurried r src u)) buf out s)) u r = [])
     = (request_entries s u r = [])"
proof -
  show "calls (snd (processPDF_try w (Some (logEventCurried r src u)) buf out s)) = calls s"
  proof (cases "ghostscript w buf")
    case (Inl e)
    then show ?thesis by (simp add: processPDF_try_def)
  next
    case (Inr pr)
    then show ?thesis
      by (cases pr) (simp add: processPDF_try_def Let_def case_prod_beta split: option.splits sum.splits)
  qed
  show "(request_entries (snd (processPDF_try w (Some (logEventCurried r src u)) buf out s)) u r = [])
     = (request_entries s u r = [])"
  proof (cases "ghostscript w buf")
    case (Inl e)
    then show ?thesis by (simp add: processPDF_try_def)
  next
    case (Inr pr)
    then show ?thesis
      by (cases pr) (simp add: processPDF_try_def Let_def case_prod_beta split: option.splits sum.splits)
  qed
qed

lemma processPDF_try_fails [simp]:
  "ghostscript w buf = Inl e \<Longrightarrow> processPDF_try w lf buf out s = (Inl e, s)"
  by (simp add: processPDF_try_def)

lemma processPDF_calls:
  assumes "files s p = Some input"
  shows "new_calls s (snd (processPDF w p compress (Some (logEventCurried r src u)) s)) =
           (if compress = Some True \<and> length input > 51200
            then [Ghostscript p (processPDF_outputPath w p)] else [])"
proof (cases "compress = Some True \<and> length input > 51200")
  case True
  then show ?thesis
    using assms
    by (simp add: processPDF_def Let_def truthy_def case_prod_beta split: sum.splits)
next
  case False
  then show ?thesis
    using assms by (auto simp add: processPDF_def Let_def truthy_def)
qed

lemma processPDF_ghostscript_fails:
  assumes "files s p = Some input" and "length input > 51200"
      and "ghostscript w input = Inl e" and "request_entries s u r \<noteq> []"
      and "run = processPDF w p (Some True) (Some (logEventCurried r src u)) s"
  shows "fst run = Inr input"
    and "statuses (snd run) u r = statuses s u r @ [Processing, Warning]"
    and "new_calls s (snd run) = [Ghostscript p (processPDF_outputPath w p)]"
    and "files (snd run) = files s"
  using assms
  by (simp_all add: processPDF_def Let_def truthy_def)

lemma processPDF_compressed:
  assumes "files s p = Some input" and "length input > 51200"
      and "ghostscript w input = Inr (report, Some out)"
      and "unlink_error w (processPDF_outputPath w p) = None"
      and "run = processPDF w p (Some True) (Some (logEventCurried r src u)) s"
  shows "fst run = Inr out"
    and "files (snd run) = (files s)(processPDF_outputPath w p := None)"
    and "new_calls s (snd run) = [Ghostscript p (processPDF_outputPath w p)]"
  using assms
  by (simp_all add: processPDF_def processPDF_try_def unlink_def Let_def truthy_def)

lemma processPDF_skipped:
  assumes "files s p = Some input" and "\<not> (compress = Some True \<and> length input > 51200)"
  shows "fst (processPDF w p compress lf s) = Inr input"
  using assms by (auto simp add: processPDF_def Let_def truthy_def)

lemma processPDF_entries [simp]:
  "(request_entries (snd (processPDF w p c (Some (logEventCurried r src u)) s)) u r = [])
     = (request_entries s u r = [])"
  by (simp add: processPDF_def Let_def case_prod_beta processPDF_catch_def
           split: option.splits sum.splits)

lemma processVideo_entries [simp]:
  "(request_entries (snd (processVideo w p crop trim c (Some (logEventCurried r src u)) s)) u r = [])
     = (request_entries s u r = [])"
  by (simp add: processVideo_unfold Let_def processVideo_command_def case_prod_beta
           split: option.splits sum.splits)

section \<open>The steps of \<open>processMessage\<close>\<close>

lemma uploadFile_frame [simp]:
  "files (snd (uploadFile w url body ct s)) = files s"
  "request_entries (snd (uploadFile w url body ct s)) u r = request_entries s u r"
  "statuses (snd (uploadFile w url body ct s)) u r = statuses s u r"
  by (simp_all add: uploadFile_def Let_def request_entries_def statuses_def events_of_def
        split: option.splits put_result.splits)

lemma uploadFile_calls:
  "calls (snd (uploadFile w url body ct s)) =
     calls s @ (case url of None \<Rightarrow> [] | Some target \<Rightarrow> [Put target body ct])"
  by (simp add: uploadFile_def Let_def split: option.splits put_result.splits)

lemma uploadFile_ok:
  "http_put w target body ct = PutResponse True \<Longrightarrow>
   uploadFile w (Some target) body ct s = (Inr (), s\<lparr>calls := calls s @ [Put target body ct]\<rparr>)"
  by (simp add: uploadFile_def Let_def)

lemma cleanup_file_frame [simp]:
  "calls (snd (cleanup_file w p a b rid s)) = calls s"
  "request_entries (snd (cleanup_file w p a b rid s)) u r = request_entries s u r"
  "statuses (snd (cleanup_file w p a b rid s)) u r = statuses s u r"
  by (simp_all add: cleanup_file_def case_prod_beta split: sum.splits)

lemma processMessage_cleanup_frame [simp]:
  "calls (processMessage_cleanup w j ip pp s) = calls s"
  "statuses (processMessage_cleanup w j ip pp s) u r = statuses s u r"
  by (simp_all add: processMessage_cleanup_def Let_def case_prod_beta split: sum.splits)

lemma processMessage_download_frame [simp]:
  "calls (snd (processMessage_download w j (logEventCurried r src u) ip s)) = calls s"
  by (simp add: processMessage_download_def Let_def split: sum.splits)

lemma processMessage_read_frame [simp]:
  "calls (snd (processMessage_read pp s)) = calls s"
  by (simp add: processMessage_read_def split: option.splits)

section \<open>The calls of an image job\<close>

lemma processImage_calls_ok:
  assumes "list_all image_call_ok (calls s)"
  shows "list_all image_call_ok
           (calls (snd (processImage w p c crop (Some (logEventCurried r src u)) s)))"
proof (cases "fst (processImage_crop w p crop (Some (logEventCurried r src u)) s)")
  case (Inl e)
  then show ?thesis using assms by (simp add: processImage_crop_error)
next
  case (Inr rect)
  show ?thesis
  proof (cases "files s p")
    case None
    then have "files (snd (processImage_crop w p crop (Some (logEventCurried r src u)) s)) p = None"
      by simp
    then have "processImage w p c crop (Some (logEventCurried r src u)) s =
                 (Inl (enoent p), snd (processImage_crop w p crop (Some (logEventCurried r src u)) s))"
      using Inr
      by (cases "processImage_crop w p crop (Some (logEventCurried r src u)) s")
         (simp add: processImage_def Let_def)
    then show ?thesis using assms by simp
  next
    case (Some input)
    then have "files (snd (processImage_crop w p crop (Some (logEventCurried r src u)) s)) p = Some input"
      by simp
    from processImage_unfold [OF Inr this, of c]
    show ?thesis using assms by (simp add: Let_def split: sum.splits)
  qed
qed

lemma processAsset_image_calls_ok:
  assumes "list_all image_call_ok (calls s)"
  shows "list_all image_call_ok
           (calls (snd (processAsset w ''image'' p cfg (Some (logEventCurried r src u)) s)))"
  using assms
  by (simp add: processAsset_def Let_def hasOwnProperty_def processImage_calls_ok
           split: option.splits)

lemma processMessage_process_image_calls_ok:
  assumes "list_all image_call_ok (calls s)"
  shows "list_all image_call_ok
           (calls (snd (processMessage_process w j ''image'' (logEventCurried r src u) p s)))"
  using assms
  by (simp add: processMessage_process_def Let_def case_prod_beta processAsset_image_calls_ok
           split: sum.splits)

lemma processMessage_upload_image_calls_ok:
  assumes "list_all image_call_ok (calls s)"
  shows "list_all image_call_ok
           (calls (snd (processMessage_upload w j ''image'' (logEventCurried r src u) buf s)))"
  using assms
  by (simp add: processMessage_upload_def Let_def case_prod_beta uploadFile_calls getContentType_def
           split: sum.splits option.splits)

lemma processMessage_job_image_calls_ok:
  assumes "list_all image_call_ok (calls s)"
  shows "list_all image_call_ok (calls (snd (processMessage_job w j ''image'' s)))"
  using assms
  by (simp add: processMessage_job_def Let_def case_prod_beta
        processMessage_process_image_calls_ok processMessage_upload_image_calls_ok
        split: sum.splits step_exit.splits)

section \<open>The job and the consumer\<close>

lemma startWorker_calls:
  "fst (fst (startWorker w (Some msg) s)) =
     (case fst (processMessage w msg s) of Inl e \<Rightarrow> [Nack False False] | Inr u \<Rightarrow> [Ack])"
proof (cases msg)
  case (Malformed e)
  then show ?thesis
    by (simp add: startWorker_def processMessage_def parse_message_def requestId_of_def)
next
  case JsonNull
  then show ?thesis
    by (simp add: startWorker_def processMessage_def parse_message_def requestId_of_def)
next
  case (JsonValue m)
  then show ?thesis
    by (cases "processMessage w (JsonValue m) s")
       (simp add: startWorker_def requestId_of_def split: sum.splits)
qed

lemma startWorker_frame:
  "calls (snd (startWorker w (Some msg) s)) = calls (snd (processMessage w msg s))"
  "statuses (snd (startWorker w (Some msg) s)) u r = statuses (snd (processMessage w msg s)) u r"
  by (simp_all add: startWorker_def case_prod_beta split: sum.splits)

lemma processMessage_known:
  assumes "parse_message msg = Inr j" and "getAssetType w (job_originalUrl j) s = (t, s)"
      and "t \<noteq> ''unknown''"
  shows "processMessage w msg s = processMessage_job w j t s"
  using assms by (simp add: processMessage_def)

text \<open>The state in which step 2 starts when the download succeeds.\<close>

lemma download_ok:
  assumes "http_get w (job_originalUrl j) = GetResponse True input"
      and "L = logEventCurried (job_requestId j) (job_source j) (job_originalUrl j)"
      and "d = processMessage_download w j L inputPath
                 (L (ev Pending [Txt ''Processing started''])
                    (createLogger (job_requestId j) (job_source j) (job_originalUrl j)
                       (job_assetConfig j) s))"
  shows "fst d = Inr ()" and "files (snd d) inputPath = Some input"
    and "calls (snd d) = calls s"
    and "request_entries (snd d) (job_originalUrl j) (job_requestId j) \<noteq> []"
    and "statuses (snd d) (job_originalUrl j) (job_requestId j) =
           statuses s (job_originalUrl j) (job_requestId j) @ [Pending, Processing]"
  using assms by (simp_all add: processMessage_download_def downloadFile_def Let_def)

lemma job_processing_fails:
  assumes "L = logEventCurried (job_requestId j) (job_source j) (job_originalUrl j)"
      and "inputPath = path_join (path_join (tmpdir w) ''asset-worker'') (''input-'' @ now_input w)"
      and "d = processMessage_download w j L inputPath
                 (L (ev Pending [Txt ''Processing started''])
                    (createLogger (job_requestId j) (job_source j) (job_originalUrl j)
                       (job_assetConfig j) s))"
      and "fst d = Inr ()"
      and "fst (processMessage_process w j t L inputPath (snd d)) = Inl e"
  shows "processMessage_job w j t s = (Inl e, snd (processMessage_process w j t L inputPath (snd d)))"
  using assms by (simp add: processMessage_job_def Let_def case_prod_beta)

lemma job_processing_succeeds:
  assumes "L = logEventCurried (job_requestId j) (job_source j) (job_originalUrl j)"
      and "inputPath = path_join (path_join (tmpdir w) ''asset-worker'') (''input-'' @ now_input w)"
      and "d = processMessage_download w j L inputPath
                 (L (ev Pending [Txt ''Processing started''])
                    (createLogger (job_requestId j) (job_source j) (job_originalUrl j)
                       (job_assetConfig j) s))"
      and "fst d = Inr ()"
      and "pr = processMessage_process w j t L inputPath (snd d)"
      and "fst pr = Inr path" and "files (snd pr) path = Some out"
      and "request_entries (snd pr) (job_originalUrl j) (job_requestId j) \<noteq> []"
      and "head_exists w (job_originalUrl j) = HeadResponse True header"
      and "job_overwriteUrl j = Some target"
      and "http_put w target out (getContentType t) = PutResponse True"
  shows "fst (processMessage_job w j t s) = Inr ()"
    and "calls (snd (processMessage_job w j t s)) =
           calls (snd pr) @ [Put target out (getContentType t)]"
    and "statuses (snd (processMessage_job w j t s)) (job_originalUrl j) (job_requestId j) =
           statuses (snd pr) (job_originalUrl j) (job_requestId j) @ [Completed]"
proof -
  let ?u = "processMessage_upload w j t L out (snd pr)"
  have r: "processMessage_read path (snd pr) = (Inr out, snd pr)"
    using assms(7) by (simp add: processMessage_read_def)
  have u: "fst ?u = Inr Continues"
    "calls (snd ?u) = calls (snd pr) @ [Put target out (getContentType t)]"
    "statuses (snd ?u) (job_originalUrl j) (job_requestId j) =
       statuses (snd pr) (job_originalUrl j) (job_requestId j) @ [Completed]"
    using assms(1,8,9,10,11)
    by (simp_all add: processMessage_upload_def publicAssetExists_def uploadFile_ok Let_def)
  have job: "processMessage_job w j t s =
               (Inr (), processMessage_cleanup w j inputPath path (snd ?u))"
    using assms(1,2,3,4,5,6) r u(1)
    by (simp add: processMessage_job_def Let_def case_prod_beta)
  show "fst (processMessage_job w j t s) = Inr ()" using job by simp
  show "calls (snd (processMessage_job w j t s)) =
           calls (snd pr) @ [Put target out (getContentType t)]"
    using job u(2) by simp
  show "statuses (snd (processMessage_job w j t s)) (job_originalUrl j) (job_requestId j) =
           statuses (snd pr) (job_originalUrl j) (job_requestId j) @ [Completed]"
    using job u(3) by simp
qed

lemma getAssetType_state:
  "fst (getAssetType w url s) \<noteq> ''unknown'' \<Longrightarrow> snd (getAssetType w url s) = s"
  by (simp add: getAssetType_def Let_def split: head_result.splits)

text \<open>Whether the job returns or throws, step by step.\<close>

lemma processMessage_job_decision:
  assumes "L = logEventCurried (job_requestId j) (job_source j) (job_originalUrl j)"
      and "inputPath = path_join (path_join (tmpdir w) ''asset-worker'') (''input-'' @ now_input w)"
      and "d = processMessage_download w j L inputPath
                 (L (ev Pending [Txt ''Processing started''])
                    (createLogger (job_requestId j) (job_source j) (job_originalUrl j)
                       (job_assetConfig j) s))"
      and "pr = processMessage_process w j t L inputPath (snd d)"
  shows "(case fst (processMessage_job w j t s) of
            Inl e \<Rightarrow> [Nack False False] | Inr u \<Rightarrow> [Ack]) =
         (case downloadFile w (job_originalUrl j) of
            Inl e \<Rightarrow> [Nack False False]
          | Inr input \<Rightarrow>
              (case fst pr of
                 Inl e \<Rightarrow> [Nack False False]
               | Inr path \<Rightarrow>
                   (case files (snd pr) path of
                      None \<Rightarrow> [Nack False False]
                    | Some buf \<Rightarrow>
                        if \<not> publicAssetExists w (job_originalUrl j) then [Ack]
                        else (case job_overwriteUrl j of
                                None \<Rightarrow> [Nack False False]
                              | Some target \<Rightarrow>
                                  if http_put w target buf (getContentType t) = PutResponse True
                                  then [Ack] else [Nack False False]))))"
proof (cases "downloadFile w (job_originalUrl j)")
  case (Inl e)
  then show ?thesis
    using assms(1,2)
    by (simp add: processMessage_job_def Let_def processMessage_download_def)
next
  case (Inr input)
  then have d: "fst d = Inr ()"
    using assms(3) by (simp add: processMessage_download_def Let_def)
  show ?thesis
  proof (cases "fst pr")
    case (Inl e)
    then show ?thesis
      using Inr d assms by (simp add: processMessage_job_def Let_def case_prod_beta)
  next
    case pth: (Inr path)
    show ?thesis
    proof (cases "files (snd pr) path")
      case None
      then show ?thesis
        using Inr d pth assms
        by (simp add: processMessage_job_def Let_def case_prod_beta processMessage_read_def)
    next
      case (Some buf)
      then have r: "processMessage_read path (snd pr) = (Inr buf, snd pr)"
        by (simp add: processMessage_read_def)
      have u: "(case fst (processMessage_upload w j t L buf (snd pr)) of
                  Inl e \<Rightarrow> [Nack False False] | Inr x \<Rightarrow> [Ack]) =
               (if \<not> publicAssetExists w (job_originalUrl j) then [Ack]
                else (case job_overwriteUrl j of
                        None \<Rightarrow> [Nack False False]
                      | Some target \<Rightarrow>
                          if http_put w target buf (getContentType t) = PutResponse True
                          then [Ack] else [Nack False False]))"
        by (simp add: processMessage_upload_def uploadFile_def Let_def
              split: option.splits put_result.splits)
      have job: "(case fst (processMessage_job w j t s) of
                    Inl e \<Rightarrow> [Nack False False] | Inr u \<Rightarrow> [Ack]) =
                 (case fst (processMessage_upload w j t L buf (snd pr)) of
                    Inl e \<Rightarrow> [Nack False False] | Inr x \<Rightarrow> [Ack])"
        using d pth r assms
        by (simp add: processMessage_job_def Let_def case_prod_beta
              split: sum.splits step_exit.splits)
      show ?thesis using Inr pth Some job u by simp
    qed
  qed
qed

lemma parse_message_fails:
  "msg = Malformed e \<or> msg = JsonNull
     \<or> msg = JsonValue m
        \<and> (falsy (msg_source m) \<or> falsy (msg_originalUrl m) \<or> falsy (msg_requestId m)) \<Longrightarrow>
   \<exists>error. parse_message msg = Inl error"
  by (auto simp add: parse_message_def falsy_def split: option.splits)

lemma startWorker_unparsed:
  assumes "parse_message msg = Inl error"
  shows "fst (fst (startWorker w (Some msg) s)) = [Ack]"
    and "calls (snd (startWorker w (Some msg) s)) = calls s"
    and "logs (snd (startWorker w (Some msg) s)) = logs s"
    and "files (snd (startWorker w (Some msg) s)) = files s"
  using assms
  by (simp_all add: startWorker_def processMessage_def requestId_of_def
        split: content.splits sum.splits)

section \<open>An image job that succeeds\<close>

text \<open>Step 2 of an image job whose encoder succeeds.\<close>

lemma process_image_ok:
  assumes "files s p = Some input" and "request_entries s u r \<noteq> []"
      and "job_assetConfig j = Some cfg" and "imageProps cfg = Some props"
      and "c = processImage_crop w p (img_cropParams props) (Some (logEventCurried r src u)) s"
      and "fst c = Inr rect"
      and "q = (if img_compress props = Some True \<and> length input > 512000 then 60 else 100)"
      and "sharp_toFile w input rect q = Inr out"
      and "pr = processMessage_process w j ''image'' (logEventCurried r src u) p s"
  shows "fst pr = Inr (processImage_outputPath w p)"
    and "files (snd pr) (processImage_outputPath w p) = Some out"
    and "calls (snd pr) = calls s @ [SharpToFile p rect q (processImage_outputPath w p)]"
    and "request_entries (snd pr) u r \<noteq> []"
    and "statuses (snd pr) u r = statuses (snd c) u r @ [Processing]"
proof -
  let ?lf = "Some (logEventCurried r src u)"
  let ?out = "processImage_outputPath w p"
  have fc: "files (snd c) p = Some input" "calls (snd c) = calls s"
    "request_entries (snd c) u r \<noteq> []"
    using assms(1,2,5) by simp_all
  have pi: "processImage w p (img_compress props) (img_cropParams props) ?lf s =
              (Inr ?out,
               (snd c)\<lparr>calls := calls (snd c) @ [SharpToFile p rect q ?out],
                        files := (files (snd c))(?out \<mapsto> out)\<rparr>)"
    using processImage_unfold [of w p "img_cropParams props" ?lf s rect input "img_compress props"]
      assms(5,6,7,8) fc(1)
    by (simp add: Let_def)
  have pr: "pr = (Inr ?out,
                  logger Info [Txt (''Processing complete | Request ID: '' @ job_requestId j)]
                    (logEventCurried r src u
                       (ev Processing [Txt ''Processing complete, uploading to DO Spaces''])
                       ((snd c)\<lparr>calls := calls (snd c) @ [SharpToFile p rect q ?out],
                                files := (files (snd c))(?out \<mapsto> out)\<rparr>)))"
    using assms(3,4,9) pi
    by (simp add: processMessage_process_def processAsset_def hasOwnProperty_def Let_def)
  show "fst pr = Inr ?out" using pr by simp
  show "files (snd pr) ?out = Some out" using pr by simp
  show "calls (snd pr) = calls s @ [SharpToFile p rect q ?out]" using pr fc(2) by simp
  show "request_entries (snd pr) u r \<noteq> []" using pr fc(3) by simp
  show "statuses (snd pr) u r = statuses (snd c) u r @ [Processing]" using pr fc(3) by simp
qed

text \<open>The rectangle that \<open>processImage\<close> hands to \<open>extract\<close>, and the warning it logs, in
  terms of the probed metadata.\<close>

lemma processImage_crop_result:
  assumes "files s p = Some input" and "request_entries s u r \<noteq> []"
      and "crop \<noteq> None \<longrightarrow> sharp_metadata w input = Inr md"
      and "imgWidth = int (case md_width md of None \<Rightarrow> 0 | Some n \<Rightarrow> n)"
      and "imgHeight = int (case md_height md of None \<Rightarrow> 0 | Some n \<Rightarrow> n)"
      and "c = processImage_crop w p crop (Some (logEventCurried r src u)) s"
  shows "fst c = Inr (case crop of
                        None \<Rightarrow> None
                      | Some cp \<Rightarrow>
                          Some (if crop_valid cp imgWidth imgHeight then cp
                                else \<lparr>crop_x = 0, crop_y = 0, crop_width = imgWidth,
                                      crop_height = imgHeight\<rparr>))"
    and "statuses (snd c) u r = statuses s u r @
           (case crop of
              None \<Rightarrow> []
            | Some cp \<Rightarrow> if crop_valid cp imgWidth imgHeight then [] else [Warning])"
proof -
  show "fst c = Inr (case crop of
                        None \<Rightarrow> None
                      | Some cp \<Rightarrow>
                          Some (if crop_valid cp imgWidth imgHeight then cp
                                else \<lparr>crop_x = 0, crop_y = 0, crop_width = imgWidth,
                                      crop_height = imgHeight\<rparr>))"
  proof (cases crop)
    case None
    then show ?thesis using assms(6) by simp
  next
    case (Some cp)
    then have md: "sharp_metadata w input = Inr md" using assms(3) by simp
    show ?thesis
      using processImage_crop_Some(1) [OF assms(1) md assms(2,4,5), of cp src] Some assms(6)
      by simp
  qed
  show "statuses (snd c) u r = statuses s u r @
           (case crop of
              None \<Rightarrow> []
            | Some cp \<Rightarrow> if crop_valid cp imgWidth imgHeight then [] else [Warning])"
  proof (cases crop)
    case None
    then show ?thesis using assms(6) by simp
  next
    case (Some cp)
    then have md: "sharp_metadata w input = Inr md" using assms(3) by simp
    show ?thesis
      using processImage_crop_Some(2) [OF assms(1) md assms(2,4,5), of cp src] Some assms(6)
      by simp
  qed
qed

text \<open>An image job, from the delivery to the acknowledgment, when every collaborator
  succeeds.\<close>

lemma image_job_run:
  assumes "parse_message msg = Inr j"
      and "getAssetType w (job_originalUrl j) s = (''image'', s)"
      and "job_assetConfig j = Some cfg" and "imageProps cfg = Some props"
      and "http_get w (job_originalUrl j) = GetResponse True input"
      and "inputPath = path_join (path_join (tmpdir w) ''asset-worker'') (''input-'' @ now_input w)"
      and "img_cropParams props \<noteq> None \<longrightarrow> sharp_metadata w input = Inr md"
      and "imgWidth = int (case md_width md of None \<Rightarrow> 0 | Some n \<Rightarrow> n)"
      and "imgHeight = int (case md_height md of None \<Rightarrow> 0 | Some n \<Rightarrow> n)"
      and "rect = (case img_cropParams props of
                     None \<Rightarrow> None
                   | Some cp \<Rightarrow>
                       Some (if crop_valid cp imgWidth imgHeight then cp
                             else \<lparr>crop_x = 0, crop_y = 0, crop_width = imgWidth,
                                   crop_height = imgHeight\<rparr>))"
      and "q = (if img_compress props = Some True \<and> length input > 512000 then 60 else 100)"
      and "sharp_toFile w input rect q = Inr out"
      and "head_exists w (job_originalUrl j) = HeadResponse True header"
      and "job_overwriteUrl j = Some target"
      and "http_put w target out ''image/jpeg'' = PutResponse True"
      and "run = startWorker w (Some msg) s"
  shows "fst (fst run) = [Ack]"
    and "new_calls s (snd run) =
           [SharpToFile inputPath rect q (processImage_outputPath w inputPath),
            Put target out ''image/jpeg'']"
    and "new_statuses s (snd run) (job_originalUrl j) (job_requestId j) =
           [Pending, Processing] @
           (case img_cropParams props of
              None \<Rightarrow> []
            | Some cp \<Rightarrow> if crop_valid cp imgWidth imgHeight then [] else [Warning]) @
           [Processing, Completed]"
proof -
  let ?u = "job_originalUrl j" and ?r = "job_requestId j"
  let ?L = "logEventCurried (job_requestId j) (job_source j) (job_originalUrl j)"
  let ?d = "processMessage_download w j ?L inputPath
              (?L (ev Pending [Txt ''Processing started''])
                 (createLogger (job_requestId j) (job_source j) (job_originalUrl j)
                    (job_assetConfig j) s))"
  let ?c = "processImage_crop w inputPath (img_cropParams props) (Some ?L) (snd ?d)"
  let ?ws = "case img_cropParams props of
               None \<Rightarrow> []
             | Some cp \<Rightarrow> if crop_valid cp imgWidth imgHeight then [] else [Warning]"
  note d = download_ok [OF assms(5) refl refl, where inputPath = inputPath and s = s]
  note c = processImage_crop_result [OF d(2,4) assms(7,8,9) refl, of "job_source j"]
  have c1: "fst ?c = Inr rect" using c(1) assms(10) by simp
  note p = process_image_ok [OF d(2,4) assms(3,4) refl c1 assms(11,12) refl]
  have put: "http_put w target out (getContentType ''image'') = PutResponse True"
    using assms(15) by (simp add: getContentType_def)
  note js = job_processing_succeeds [OF refl assms(6) refl d(1) refl p(1,2,4) assms(13,14) put]
  have pm: "processMessage w msg s = processMessage_job w j ''image'' s"
    using processMessage_known [OF assms(1,2)] by simp
  show "fst (fst run) = [Ack]"
    using js(1) pm assms(16) by (simp add: startWorker_calls)
  have "calls (snd run) = calls s @
          [SharpToFile inputPath rect q (processImage_outputPath w inputPath),
           Put target out ''image/jpeg'']"
    using js(2) p(3) d(3) pm assms(16) by (simp add: startWorker_frame getContentType_def)
  then show "new_calls s (snd run) =
           [SharpToFile inputPath rect q (processImage_outputPath w inputPath),
            Put target out ''image/jpeg'']"
    by (simp add: new_calls_def)
  have "statuses (snd run) ?u ?r =
          statuses s ?u ?r @ ([Pending, Processing] @ ?ws @ [Processing, Completed])"
    using js(3) p(5) c(2) d(5) pm assms(16) by (simp add: startWorker_frame)
  then show "new_statuses s (snd run) ?u ?r = [Pending, Processing] @ ?ws @ [Processing, Completed]"
    by (simp add: new_statuses_def)
qed

section \<open>A video job that succeeds\<close>





section \<open>Sample states\<close>

lemmas job_defs =
  startWorker_def processMessage_def parse_message_def requestId_of_def getAssetType_def
  startsWith_def processMessage_job_def processMessage_download_def downloadFile_def
  processMessage_process_def processAsset_def hasOwnProperty_def processMessage_read_def
  processMessage_upload_def publicAssetExists_def uploadFile_def getContentType_def
  processMessage_cleanup_def cleanup_file_def unlink_def path_join_def

lemmas sample_defs =
  world0_def sample_message_def image_config_def sample_error_def

lemma state0_simps [simp]:
  "files state0 = Map.empty" "logs state0 = Map.empty" "calls state0 = []"
  "statuses state0 u r = []" "request_entries state0 u r = []"
  by (simp_all add: statuses_def events_of_def request_entries_def state0_def)


lemma state_with_simps [simp]:
  "files (state_with p input) = [p \<mapsto> input]"
  "calls (state_with p input) = []"
  "request_entries (state_with p input) ''https://x/a.jpg'' ''req-1'' \<noteq> []"
  "statuses (state_with p input) ''https://x/a.jpg'' ''req-1'' = []"
  by (simp_all add: state_with_def)

lemma sample_basename [simp]:
  "basename_ext ''/tmp/asset-worker/input-1700000000000''
     (extname ''/tmp/asset-worker/input-1700000000000'') = ''input-1700000000000''"
proof -
  have b: "basename ''/tmp/asset-worker/input-1700000000000'' = ''input-1700000000000''"
    by (simp add: basename_def)
  have e: "extname ''/tmp/asset-worker/input-1700000000000'' = []"
    by (simp add: extname_def b)
  show ?thesis
    by (simp add: basename_ext_def b e)
qed

lemmas run_defs =
  job_defs sample_defs processImage_def processImage_crop_def processImage_outputPath_def
  processVideo_def processVideo_outputPath_def processVideo_validCrop_def
  processVideo_validTrim_def processVideo_command_def processVideo_trim_def
  processVideo_cropFilter_def processVideo_compress_def getVideoDimensions_def
  getVideoDuration_def truthy_def
  createAssetJob_def falsy_def scenario1_body_def video_config_def pdf_config_def
  crop_inside_def world_deleted_def world_unreadable_def world_video_def
  world_video_unprobed_def world_unknown_def world_offline_def Let_def

section \<open>Compression floors\<close>

text \<open>
  C7. Compression is applied exactly when the caller requested it and the input file is
  strictly larger than the floor of its kind: 500 KiB for an image, 1.5 MiB for a video,
  50 KiB for a PDF.
  \<^item> An image is encoded at WebP quality 60 instead of 100, and the output file holds what
    the encoder produced at that quality.
  \<^item> A video is saved with the option \<open>-crf 32\<close>, and with no output option otherwise;
    the output file holds what ffmpeg produced for that very command.
  \<^item> A PDF is passed through Ghostscript, and \<open>processPDF\<close> returns the bytes that
    Ghostscript wrote (the temporary output file is read and removed); otherwise no
    process is run and \<open>processPDF\<close> returns the input bytes.

  An image of exactly 512000 bytes is encoded at quality 100 even when compression is
  requested, one of 512001 bytes at quality 60.
\<close>

theorem compression_floor:
  assumes "files s p = Some input" and "request_entries s u r \<noteq> []"
      and "lf = Some (logEventCurried r src u)"
  shows "(fst (processImage_crop w p crop lf s) = Inr rect \<longrightarrow>
            new_calls s (snd (processImage w p compress crop lf s)) =
              [SharpToFile p rect
                 (if compress = Some True \<and> length input > 500 * 1024 then 60 else 100)
                 (processImage_outputPath w p)])
       \<and> (\<exists>cmd. new_calls s (snd (processVideo w p crop trim compress lf s)) =
                    [FfmpegSave p cmd (processVideo_outputPath w p)]
                \<and> cmd_outputOptions cmd =
                    (if compress = Some True \<and> real (length input) > 1.5 * 1024 * 1024
                     then [''-crf 32''] else []))
       \<and> new_calls s (snd (processPDF w p compress lf s)) =
            (if compress = Some True \<and> length input > 50 * 1024
             then [Ghostscript p (processPDF_outputPath w p)] else [])
       \<and> (length input = 512000 \<longrightarrow>
            new_calls s (snd (processImage w p (Some True) None lf s)) =
              [SharpToFile p None 100 (processImage_outputPath w p)])
       \<and> (length input = 512001 \<longrightarrow>
            new_calls s (snd (processImage w p (Some True) None lf s)) =
              [SharpToFile p None 60 (processImage_outputPath w p)])
       \<and> (fst (processImage_crop w p crop lf s) = Inr rect
            \<and> sharp_toFile w input rect
                 (if compress = Some True \<and> length input > 500 * 1024 then 60 else 100) =
                Inr webp \<longrightarrow>
            fst (processImage w p compress crop lf s) = Inr (processImage_outputPath w p)
            \<and> files (snd (processImage w p compress crop lf s)) (processImage_outputPath w p) =
                Some webp)
       \<and> (\<exists>cmd. new_calls s (snd (processVideo w p crop trim compress lf s)) =
                    [FfmpegSave p cmd (processVideo_outputPath w p)]
                \<and> (\<forall>encoded. ffmpeg_save w input cmd = Inr encoded \<longrightarrow>
                      fst (processVideo w p crop trim compress lf s) =
                        Inr (processVideo_outputPath w p)
                      \<and> files (snd (processVideo w p crop trim compress lf s))
                          (processVideo_outputPath w p) = Some encoded))
       \<and> (compress = Some True \<and> length input > 50 * 1024
            \<and> ghostscript w input = Inr (report, Some pdf)
            \<and> unlink_error w (processPDF_outputPath w p) = None \<longrightarrow>
            fst (processPDF w p compress lf s) = Inr pdf
            \<and> files (snd (processPDF w p compress lf s)) (processPDF_outputPath w p) = None)
       \<and> (\<not> (compress = Some True \<and> length input > 50 * 1024) \<longrightarrow>
            fst (processPDF w p compress lf s) = Inr input)"
proof -
  let ?q = "\<lambda>c. if c = Some True \<and> length input > 500 * 1024 then 60 else (100 :: nat)"
  have unfold: "processImage w p c k lf s =
                 (let s1 = snd (processImage_crop w p k lf s);
                      s2 = s1\<lparr>calls := calls s1 @
                             [SharpToFile p x (?q c) (processImage_outputPath w p)]\<rparr>
                  in case sharp_toFile w input x (?q c) of
                       Inl e \<Rightarrow> (Inl e, s2)
                     | Inr out \<Rightarrow>
                         (Inr (processImage_outputPath w p),
                          s2\<lparr>files := (files s2)(processImage_outputPath w p \<mapsto> out)\<rparr>))"
    if "fst (processImage_crop w p k lf s) = Inr x" for c k x
  proof -
    have "files (snd (processImage_crop w p k lf s)) p = Some input"
      using assms(1,3) by simp
    from processImage_unfold [OF that this, of c] show ?thesis
      by (simp add: Let_def)
  qed
  have image: "new_calls s (snd (processImage w p c k lf s)) =
                 [SharpToFile p x (?q c) (processImage_outputPath w p)]"
    if "fst (processImage_crop w p k lf s) = Inr x" for c k x
    using unfold [OF that, of c] assms(3) by (simp add: Let_def split: sum.splits)
  have written: "fst (processImage w p c k lf s) = Inr (processImage_outputPath w p)
                 \<and> files (snd (processImage w p c k lf s)) (processImage_outputPath w p) = Some out"
    if "fst (processImage_crop w p k lf s) = Inr x" and "sharp_toFile w input x (?q c) = Inr out"
    for c k x out
    using unfold [OF that(1), of c] that(2) by (simp add: Let_def)
  have none: "fst (processImage_crop w p None lf s) = Inr None" by simp
  note v = processVideo_run [OF assms(1,2,3) refl refl refl refl, of w crop trim compress]
  have video: "\<exists>cmd. new_calls s (snd (processVideo w p crop trim compress lf s)) =
                      [FfmpegSave p cmd (processVideo_outputPath w p)]
                  \<and> cmd_outputOptions cmd =
                      (if compress = Some True \<and> length input > 1572864
                       then [''-crf 32''] else [])"
    using v(1) by simp
  have saved: "\<exists>cmd. new_calls s (snd (processVideo w p crop trim compress lf s)) =
                      [FfmpegSave p cmd (processVideo_outputPath w p)]
                  \<and> (\<forall>encoded. ffmpeg_save w input cmd = Inr encoded \<longrightarrow>
                        fst (processVideo w p crop trim compress lf s) =
                          Inr (processVideo_outputPath w p)
                        \<and> files (snd (processVideo w p crop trim compress lf s))
                            (processVideo_outputPath w p) = Some encoded)"
    using v(1,3,4) by (intro exI conjI) (assumption, simp)
  have floor: "(real (length input) > 1.5 * 1024 * 1024) = (length input > 1572864)"
    by auto
  have pdf: "new_calls s (snd (processPDF w p compress lf s)) =
               (if compress = Some True \<and> length input > 50 * 1024
                then [Ghostscript p (processPDF_outputPath w p)] else [])"
    using processPDF_calls [OF assms(1), of w compress r src u] assms(3) by simp
  have gs: "fst (processPDF w p compress lf s) = Inr pdf
            \<and> files (snd (processPDF w p compress lf s)) (processPDF_outputPath w p) = None"
    if "compress = Some True \<and> length input > 50 * 1024
          \<and> ghostscript w input = Inr (report, Some pdf)
          \<and> unlink_error w (processPDF_outputPath w p) = None"
  proof -
    have len: "51200 < length input" using that by simp
    note c = processPDF_compressed [OF assms(1) len _ _ refl, of w report pdf r src u]
    show ?thesis using c(1,2) that assms(3) by simp
  qed
  have skip: "fst (processPDF w p compress lf s) = Inr input"
    if "\<not> (compress = Some True \<and> length input > 50 * 1024)"
    using processPDF_skipped [OF assms(1), of compress w lf] that by simp
  show ?thesis
  proof (intro conjI impI)
    show "new_calls s (snd (processImage w p compress crop lf s)) =
            [SharpToFile p rect (?q compress) (processImage_outputPath w p)]"
      if "fst (processImage_crop w p crop lf s) = Inr rect"
      using image [OF that] .
    show "\<exists>cmd. new_calls s (snd (processVideo w p crop trim compress lf s)) =
                    [FfmpegSave p cmd (processVideo_outputPath w p)]
                \<and> cmd_outputOptions cmd =
                    (if compress = Some True \<and> real (length input) > 1.5 * 1024 * 1024
                     then [''-crf 32''] else [])"
      using video floor by simp
    show "new_calls s (snd (processPDF w p compress lf s)) =
            (if compress = Some True \<and> length input > 50 * 1024
             then [Ghostscript p (processPDF_outputPath w p)] else [])"
      using pdf .
    show "new_calls s (snd (processImage w p (Some True) None lf s)) =
            [SharpToFile p None 100 (processImage_outputPath w p)]"
      if "length input = 512000"
      using image [OF none, of "Some True"] that by simp
    show "new_calls s (snd (processImage w p (Some True) None lf s)) =
            [SharpToFile p None 60 (processImage_outputPath w p)]"
      if "length input = 512001"
      using image [OF none, of "Some True"] that by simp
    show "fst (processImage w p compress crop lf s) = Inr (processImage_outputPath w p)"
      if "fst (processImage_crop w p crop lf s) = Inr rect \<and>
          sharp_toFile w input rect (?q compress) = Inr webp"
      using written [of crop rect compress webp] that by simp
    show "files (snd (processImage w p compress crop lf s)) (processImage_outputPath w p) =
            Some webp"
      if "fst (processImage_crop w p crop lf s) = Inr rect \<and>
          sharp_toFile w input rect (?q compress) = Inr webp"
      using written [of crop rect compress webp] that by simp
    show "\<exists>cmd. new_calls s (snd (processVideo w p crop trim compress lf s)) =
                    [FfmpegSave p cmd (processVideo_outputPath w p)]
                \<and> (\<forall>encoded. ffmpeg_save w input cmd = Inr encoded \<longrightarrow>
                      fst (processVideo w p crop trim compress lf s) =
                        Inr (processVideo_outputPath w p)
                      \<and> files (snd (processVideo w p crop trim compress lf s))
                          (processVideo_outputPath w p) = Some encoded)"
      using saved .
    show "fst (processPDF w p compress lf s) = Inr pdf"
      if "compress = Some True \<and> length input > 50 * 1024
            \<and> ghostscript w input = Inr (report, Some pdf)
            \<and> unlink_error w (processPDF_outputPath w p) = None"
      using gs [OF that] by simp
    show "files (snd (processPDF w p compress lf s)) (processPDF_outputPath w p) = None"
      if "compress = Some True \<and> length input > 50 * 1024
            \<and> ghostscript w input = Inr (report, Some pdf)
            \<and> unlink_error w (processPDF_outputPath w p) = None"
      using gs [OF that] by simp
    show "fst (processPDF w p compress lf s) = Inr input"
      if "\<not> (compress = Some True \<and> length input > 50 * 1024)"
      using skip [OF that] .
  qed
qed

theorem compression_floor_witness:
  "new_calls (state_with ''/t/in'' (replicate 512000 0))
     (snd (processImage world0 ''/t/in'' (Some True) None sample_log
             (state_with ''/t/in'' (replicate 512000 0)))) =
     [SharpToFile ''/t/in'' None 100 (processImage_outputPath world0 ''/t/in'')]
   \<and> new_calls (state_with ''/t/in'' (replicate 512001 0))
     (snd (processImage world0 ''/t/in'' (Some True) None sample_log
             (state_with ''/t/in'' (replicate 512001 0)))) =
     [SharpToFile ''/t/in'' None 60 (processImage_outputPath world0 ''/t/in'')]
   \<and> new_calls (state_with ''/t/in'' (replicate 51200 0))
     (snd (processPDF world0 ''/t/in'' (Some True) sample_log
             (state_with ''/t/in'' (replicate 51200 0)))) = []
   \<and> fst (processPDF world0 ''/t/in'' (Some True) sample_log
            (state_with ''/t/in'' (replicate 51200 0))) = Inr (replicate 51200 0)
   \<and> fst (processPDF world0 ''/t/in'' (Some True) sample_log
            (state_with ''/t/in'' (replicate 51201 0))) = Inr [7]
   \<and> files (snd (processImage world0 ''/t/in'' (Some True) None sample_log
                   (state_with ''/t/in'' (replicate 512001 0))))
       (processImage_outputPath world0 ''/t/in'') = Some [4, 5]"
proof -
  have gs: "ghostscript world0 (replicate 51201 0) = Inr ('''', Some [7])"
    and ul: "unlink_error world0 (processPDF_outputPath world0 ''/t/in'') = None"
    and enc: "sharp_toFile world0 (replicate 512001 0) None 60 = Inr [4, 5]"
    by (simp_all add: world0_def)
  note a = compression_floor [of "state_with ''/t/in'' (replicate 512000 0)" "''/t/in''"
          "replicate 512000 0" "''https://x/a.jpg''" "''req-1''" sample_log "''cms''"
          world0 None None "Some True" None]
  note b = compression_floor [of "state_with ''/t/in'' (replicate 512001 0)" "''/t/in''"
          "replicate 512001 0" "''https://x/a.jpg''" "''req-1''" sample_log "''cms''"
          world0 None None "Some True" None "[4, 5]"]
  note c = compression_floor [of "state_with ''/t/in'' (replicate 51200 0)" "''/t/in''"
          "replicate 51200 0" "''https://x/a.jpg''" "''req-1''" sample_log "''cms''"
          world0 None None "Some True" None]
  note d = compression_floor [of "state_with ''/t/in'' (replicate 51201 0)" "''/t/in''"
          "replicate 51201 0" "''https://x/a.jpg''" "''req-1''" sample_log "''cms''"
          world0 None None "Some True" None _ "''''" "[7]"]
  have a': "new_calls (state_with ''/t/in'' (replicate 512000 0))
     (snd (processImage world0 ''/t/in'' (Some True) None sample_log
             (state_with ''/t/in'' (replicate 512000 0)))) =
     [SharpToFile ''/t/in'' None 100 (processImage_outputPath world0 ''/t/in'')]"
    using a by (simp add: sample_log_def)
  have b': "new_calls (state_with ''/t/in'' (replicate 512001 0))
     (snd (processImage world0 ''/t/in'' (Some True) None sample_log
             (state_with ''/t/in'' (replicate 512001 0)))) =
     [SharpToFile ''/t/in'' None 60 (processImage_outputPath world0 ''/t/in'')]
     \<and> files (snd (processImage world0 ''/t/in'' (Some True) None sample_log
                   (state_with ''/t/in'' (replicate 512001 0))))
       (processImage_outputPath world0 ''/t/in'') = Some [4, 5]"
    using b enc by (simp add: sample_log_def)
  have c': "new_calls (state_with ''/t/in'' (replicate 51200 0))
     (snd (processPDF world0 ''/t/in'' (Some True) sample_log
             (state_with ''/t/in'' (replicate 51200 0)))) = []
     \<and> fst (processPDF world0 ''/t/in'' (Some True) sample_log
            (state_with ''/t/in'' (replicate 51200 0))) = Inr (replicate 51200 0)"
    using c by (simp add: sample_log_def)
  have d': "fst (processPDF world0 ''/t/in'' (Some True) sample_log
            (state_with ''/t/in'' (replicate 51201 0))) = Inr [7]"
    using d gs ul by (simp add: sample_log_def)
  show ?thesis using a' b' c' d' by simp
qed

section \<open>Opening the request log\<close>

text \<open>
  C8. A second call of \<open>createLogger\<close> with the same \<open>originalUrl\<close> and
  \<open>requestId\<close> changes nothing: the store after both calls is the store after the
  first. So when the log document held at most one request entry with that
  \<open>requestId\<close> before, it holds exactly one after both calls.
\<close>

theorem createLogger_idempotent:
  "createLogger requestId source2 originalUrl config2
     (createLogger requestId source originalUrl config s) =
   createLogger requestId source originalUrl config s
   \<and> (length (request_entries s originalUrl requestId) \<le> 1 \<longrightarrow>
        length (request_entries
                  (createLogger requestId source2 originalUrl config2
                     (createLogger requestId source originalUrl config s))
                  originalUrl requestId) = 1)"
proof -
  have one: "length xs = 1" if "length xs \<le> 1" and "xs \<noteq> []" for xs :: "IRequestLog list"
    using that by (cases xs) auto
  show ?thesis
    by (simp add: createLogger_again request_entries_createLogger one)
qed

theorem createLogger_idempotent_witness:
  "length (request_entries state0 ''https://x/a.jpg'' ''req-1'') \<le> 1
   \<and> length (request_entries
                (createLogger ''req-1'' ''cms'' ''https://x/a.jpg'' None
                   (createLogger ''req-1'' ''cms'' ''https://x/a.jpg'' None state0))
                ''https://x/a.jpg'' ''req-1'') = 1"
proof -
  have h: "length (request_entries state0 ''https://x/a.jpg'' ''req-1'') \<le> 1"
    by simp
  from createLogger_idempotent [of "''req-1''" "''cms''" "''https://x/a.jpg''" None
         "''cms''" None state0] h
  show ?thesis by blast
qed

section \<open>Crop and trim parameters\<close>

lemma processVideo_validCrop_None [simp]:
  "processVideo_validCrop w p None lf s = (False, s)"
  by (simp add: processVideo_validCrop_def)

lemma processVideo_validTrim_None [simp]:
  "processVideo_validTrim w p None lf s = (False, s)"
  by (simp add: processVideo_validTrim_def)






text \<open>
  C6. A requested trim window is applied exactly when \<open>start \<ge> 0\<close>,
  \<open>end \<le> duration\<close> and \<open>start < end\<close> hold for the probed duration: the command then
  starts at \<open>start\<close> and lasts \<open>end - start\<close>. Otherwise, and so for every window with
  \<open>start \<ge> end\<close>, a warning is logged, the command is the very command of a run without
  trim parameters, and what it encodes has the duration of the original.
\<close>

theorem trim_validation:
  assumes "files s p = Some input" and "request_entries s u r \<noteq> []"
      and "lf = Some (logEventCurried r src u)"
      and "getVideoDuration w p s = Inr d"
  shows "\<exists>cmd. new_calls s (snd (processVideo w p crop None compress lf s)) =
                  [FfmpegSave p cmd (processVideo_outputPath w p)]
           \<and> cmd_startTime cmd = None \<and> cmd_duration cmd = None
           \<and> encoded_duration cmd d = d
           \<and> new_calls s (snd (processVideo w p crop (Some tp) compress lf s)) =
               [FfmpegSave p
                  (if trim_valid tp d
                   then cmd\<lparr>cmd_startTime := Some (trim_start tp),
                            cmd_duration := Some (trim_end tp - trim_start tp)\<rparr>
                   else cmd)
                  (processVideo_outputPath w p)]
           \<and> (\<not> trim_valid tp d \<longrightarrow>
                 Warning \<in> set (new_statuses s
                                  (snd (processVideo w p crop (Some tp) compress lf s)) u r)
                 \<and> fst (processVideo w p crop (Some tp) compress lf s) =
                     fst (processVideo w p crop None compress lf s))
           \<and> (trim_start tp \<ge> trim_end tp \<longrightarrow> \<not> trim_valid tp d)"
proof -
  let ?vc = "fst (processVideo_validCrop w p crop lf s)"
  let ?cmd = "\<lparr>cmd_videoCodec = ''libx264'', cmd_startTime = None, cmd_duration = None,
            cmd_videoFilters =
              (case crop of Some cp \<Rightarrow> if ?vc then [crop_filter cp] else [] | None \<Rightarrow> []),
            cmd_size = Some ''640x?'',
            cmd_outputOptions =
              (if compress = Some True \<and> length input > 1572864 then [''-crf 32''] else [])\<rparr>"
  have vt: "fst (processVideo_validTrim w p (Some tp) lf s) = trim_valid tp d"
    using processVideo_validTrim_probed [OF assms(4)] by simp
  note r0 = processVideo_run [OF assms(1,2,3) refl refl refl refl, of w crop None compress]
  note r1 = processVideo_run [OF assms(1,2,3) refl refl refl refl, of w crop "Some tp" compress]
  have a: "new_calls s (snd (processVideo w p crop None compress lf s)) =
             [FfmpegSave p ?cmd (processVideo_outputPath w p)]"
    using r0(1) by simp
  have b: "new_calls s (snd (processVideo w p crop (Some tp) compress lf s)) =
               [FfmpegSave p
                  (if trim_valid tp d
                   then ?cmd\<lparr>cmd_startTime := Some (trim_start tp),
                            cmd_duration := Some (trim_end tp - trim_start tp)\<rparr>
                   else ?cmd)
                  (processVideo_outputPath w p)]"
    using r1(1) vt by simp
  have c: "Warning \<in> set (new_statuses s
                            (snd (processVideo w p crop (Some tp) compress lf s)) u r)"
    if "\<not> trim_valid tp d"
    using r1(2) vt that by (simp add: new_statuses_def)
  have e: "fst (processVideo w p crop (Some tp) compress lf s) =
             fst (processVideo w p crop None compress lf s)"
    if "\<not> trim_valid tp d"
    using r0(3) r1(3) vt that by simp
  have f: "trim_start tp \<ge> trim_end tp \<longrightarrow> \<not> trim_valid tp d"
    by (simp add: trim_valid_def)
  show ?thesis
    by (rule exI [of _ ?cmd]) (use a b c e f in \<open>simp add: encoded_duration_def\<close>)
qed

theorem trim_validation_witness:
  "Warning \<in> set (new_statuses (state_with ''/t/in'' [1, 2, 3])
       (snd (processVideo world0 ''/t/in'' None (Some \<lparr>trim_start = 50, trim_end = 10\<rparr>) None
               sample_log (state_with ''/t/in'' [1, 2, 3]))) ''https://x/a.jpg'' ''req-1'')
   \<and> new_calls (state_with ''/t/in'' [1, 2, 3])
       (snd (processVideo world0 ''/t/in'' None (Some \<lparr>trim_start = 50, trim_end = 10\<rparr>) None
               sample_log (state_with ''/t/in'' [1, 2, 3]))) =
     new_calls (state_with ''/t/in'' [1, 2, 3])
       (snd (processVideo world0 ''/t/in'' None None None sample_log
               (state_with ''/t/in'' [1, 2, 3])))"
proof -
  have d: "getVideoDuration world0 ''/t/in'' (state_with ''/t/in'' [1, 2, 3]) = Inr 30"
    by (simp add: getVideoDuration_def world0_def)
  have inv: "\<not> trim_valid \<lparr>trim_start = 50, trim_end = 10\<rparr> 30"
    by (simp add: trim_valid_def)
  from trim_validation [of "state_with ''/t/in'' [1, 2, 3]" "''/t/in''" "[1, 2, 3]"
      "''https://x/a.jpg''" "''req-1''" sample_log "''cms''" world0 30 None None
      "\<lparr>trim_start = 50, trim_end = 10\<rparr>"] d inv
  show ?thesis
    by (auto simp add: sample_log_def)
qed

section \<open>Sample runs\<close>

lemma skip_run_eval:
  "fst skip_run = ([Ack], None)"
  "statuses (snd skip_run) ''https://x/a.jpg'' ''req-1'' =
     [Pending, Processing, Processing, Completed]"
  "calls (snd skip_run) =
     [SharpToFile ''/tmp/asset-worker/input-1700000000000'' None 100
        ''/app/processed/processed-input-1700000000000.webp'']"
  "files (snd skip_run) ''/tmp/asset-worker/input-1700000000000'' = Some [1, 2, 3]"
  "files (snd skip_run) ''/app/processed/processed-input-1700000000000.webp'' = Some [4, 5]"
  by (simp_all add: skip_run_def run_defs)

lemma upload_run_eval:
  "fst upload_run = ([Ack], None)"
  "statuses (snd upload_run) ''https://x/a.jpg'' ''req-1'' =
     [Pending, Processing, Processing, Completed]"
  "calls (snd upload_run) =
     [SharpToFile ''/tmp/asset-worker/input-1700000000000'' None 100
        ''/app/processed/processed-input-1700000000000.webp'',
      Put ''https://x/a-out.jpg'' [4, 5] ''image/jpeg'']"
  "files (snd upload_run) ''/tmp/asset-worker/input-1700000000000'' = None"
  "files (snd upload_run) ''/app/processed/processed-input-1700000000000.webp'' = None"
  by (simp_all add: upload_run_def run_defs)

lemma unreadable_run_eval:
  "fst unreadable_run = ([Nack False False], None)"
  "statuses (snd unreadable_run) ''https://x/a.jpg'' ''req-1'' = [Pending, Processing, Failed]"
  "calls (snd unreadable_run) = []"
  by (simp_all add: unreadable_run_def run_defs)

lemma unprobed_run_eval:
  "fst unprobed_run = ([Ack], None)"
  "statuses (snd unprobed_run) ''https://x/a.jpg'' ''req-1'' =
     [Pending, Processing, Warning, Warning, Processing, Processing, Completed]"
  by (simp_all add: unprobed_run_def run_defs)

lemma scenario1_run_eval:
  "fst (createAssetJob world0 scenario1_body state0) =
     (Response 200 [(''status'', ''queued''), (''requestId'', ''0b5e1c'')],
      Some (JsonValue \<lparr>msg_requestId = Some ''0b5e1c'', msg_source = Some ''cms'',
                        msg_originalUrl = Some ''https://x/a.jpg'',
                        msg_overwriteUrl = Some ''https://x/a-out.jpg'',
                        msg_assetConfig = None\<rparr>))"
  "fst scenario1_run = ([Nack False False], None)"
  "statuses (snd scenario1_run) ''https://x/a.jpg'' ''0b5e1c'' = [Pending, Processing, Failed]"
  "calls (snd scenario1_run) = []"
  by (simp_all add: scenario1_run_def run_defs)

section \<open>Acknowledgment\<close>

text \<open>
  C1, as amended. The consumer acknowledges a delivered message exactly when
  \<open>processMessage\<close> returns, and rejects it without requeue (\<open>nack(msg, false, false)\<close>)
  exactly when \<open>processMessage\<close> throws.
  \<^item> A message that is not JSON, that is \<open>null\<close>, or that lacks \<open>source\<close>,
    \<open>originalUrl\<close> or \<open>requestId\<close> (absent or empty) makes \<open>processMessage\<close> log and
    return: it is acknowledged, and nothing is downloaded, written to the log store or
    uploaded.
  \<^item> A message with the three fields is acknowledged when its asset kind is unknown.
    Otherwise it is rejected when the download fails, when step 2 (the processing)
    throws, when the processed file cannot be read back, or when the asset is still
    public and the upload fails (no \<open>overwriteUrl\<close>, or a PUT that does not answer ok);
    it is acknowledged when the upload succeeds and when the asset is no longer public
    (the upload is skipped).

  The file writes of the executors are taken to succeed, so here a step 2 that returns has
  left its file behind; the read-back is nevertheless decided as the code decides it.
\<close>

theorem acknowledgment:
  "fst (fst (startWorker w (Some msg) s)) =
     (case fst (processMessage w msg s) of Inl e \<Rightarrow> [Nack False False] | Inr u \<Rightarrow> [Ack])
   \<and> (msg = Malformed e \<or> msg = JsonNull
        \<or> msg = JsonValue m
           \<and> (falsy (msg_source m) \<or> falsy (msg_originalUrl m) \<or> falsy (msg_requestId m)) \<longrightarrow>
        fst (fst (startWorker w (Some msg) s)) = [Ack]
        \<and> calls (snd (startWorker w (Some msg) s)) = calls s
        \<and> logs (snd (startWorker w (Some msg) s)) = logs s
        \<and> files (snd (startWorker w (Some msg) s)) = files s)
   \<and> (msg = JsonValue m \<and> msg_source m = Some src \<and> src \<noteq> ''''
        \<and> msg_originalUrl m = Some url \<and> url \<noteq> ''''
        \<and> msg_requestId m = Some rid \<and> rid \<noteq> '''' \<longrightarrow>
        (let j = \<lparr>job_requestId = rid, job_source = src, job_originalUrl = url,
                  job_overwriteUrl = msg_overwriteUrl m, job_assetConfig = msg_assetConfig m\<rparr>;
             t = fst (getAssetType w url s);
             L = logEventCurried rid src url;
             inputPath = path_join (path_join (tmpdir w) ''asset-worker'')
                           (''input-'' @ now_input w);
             d = processMessage_download w j L inputPath
                   (L (ev Pending [Txt ''Processing started''])
                      (createLogger rid src url (msg_assetConfig m) s));
             pr = processMessage_process w j t L inputPath (snd d)
         in fst (fst (startWorker w (Some msg) s)) =
              (if t = ''unknown'' then [Ack]
               else case downloadFile w url of
                      Inl error \<Rightarrow> [Nack False False]
                    | Inr input \<Rightarrow>
                        (case fst pr of
                           Inl error \<Rightarrow> [Nack False False]
                         | Inr processedPath \<Rightarrow>
                             (case files (snd pr) processedPath of
                                None \<Rightarrow> [Nack False False]
                              | Some processedBuffer \<Rightarrow>
                                  if \<not> publicAssetExists w url then [Ack]
                                  else (case msg_overwriteUrl m of
                                          None \<Rightarrow> [Nack False False]
                                        | Some target \<Rightarrow>
                                            if http_put w target processedBuffer
                                                 (getContentType t) = PutResponse True
                                            then [Ack] else [Nack False False]))))))"
proof (intro conjI impI)
  show "fst (fst (startWorker w (Some msg) s)) =
     (case fst (processMessage w msg s) of Inl e \<Rightarrow> [Nack False False] | Inr u \<Rightarrow> [Ack])"
    by (rule startWorker_calls)
next
  assume a: "msg = Malformed e \<or> msg = JsonNull
        \<or> msg = JsonValue m
           \<and> (falsy (msg_source m) \<or> falsy (msg_originalUrl m) \<or> falsy (msg_requestId m))"
  then obtain error where p: "parse_message msg = Inl error"
    using parse_message_fails by blast
  show "fst (fst (startWorker w (Some msg) s)) = [Ack]"
    and "calls (snd (startWorker w (Some msg) s)) = calls s"
    and "logs (snd (startWorker w (Some msg) s)) = logs s"
    and "files (snd (startWorker w (Some msg) s)) = files s"
    using startWorker_unparsed [OF p] by simp_all
next
  assume a: "msg = JsonValue m \<and> msg_source m = Some src \<and> src \<noteq> ''''
        \<and> msg_originalUrl m = Some url \<and> url \<noteq> ''''
        \<and> msg_requestId m = Some rid \<and> rid \<noteq> ''''"
  let ?j = "\<lparr>job_requestId = rid, job_source = src, job_originalUrl = url,
             job_overwriteUrl = msg_overwriteUrl m, job_assetConfig = msg_assetConfig m\<rparr>"
  let ?t = "fst (getAssetType w url s)"
  have p: "parse_message msg = Inr ?j"
    using a by (simp add: parse_message_def)
  have pm: "fst (processMessage w msg s) =
              (if ?t = ''unknown'' then Inr () else fst (processMessage_job w ?j ?t s))"
    using p getAssetType_state [of w url s]
    by (simp add: processMessage_def case_prod_beta)
  note dec = processMessage_job_decision [OF refl refl refl refl, of w ?j ?t s,
      unfolded job.select_convs]
  show "let j = ?j;
             t = fst (getAssetType w url s);
             L = logEventCurried rid src url;
             inputPath = path_join (path_join (tmpdir w) ''asset-worker'')
                           (''input-'' @ now_input w);
             d = processMessage_download w j L inputPath
                   (L (ev Pending [Txt ''Processing started''])
                      (createLogger rid src url (msg_assetConfig m) s));
             pr = processMessage_process w j t L inputPath (snd d)
         in fst (fst (startWorker w (Some msg) s)) =
              (if t = ''unknown'' then [Ack]
               else case downloadFile w url of
                      Inl error \<Rightarrow> [Nack False False]
                    | Inr input \<Rightarrow>
                        (case fst pr of
                           Inl error \<Rightarrow> [Nack False False]
                         | Inr processedPath \<Rightarrow>
                             (case files (snd pr) processedPath of
                                None \<Rightarrow> [Nack False False]
                              | Some processedBuffer \<Rightarrow>
                                  if \<not> publicAssetExists w url then [Ack]
                                  else (case msg_overwriteUrl m of
                                          None \<Rightarrow> [Nack False False]
                                        | Some target \<Rightarrow>
                                            if http_put w target processedBuffer
                                                 (getContentType t) = PutResponse True
                                            then [Ack] else [Nack False False]))))"
  proof -
    have sw: "fst (fst (startWorker w (Some msg) s)) =
                (if ?t = ''unknown'' then [Ack]
                 else (case fst (processMessage_job w ?j ?t s) of
                         Inl e \<Rightarrow> [Nack False False] | Inr u \<Rightarrow> [Ack]))"
      by (simp add: startWorker_calls pm)
    show ?thesis
      unfolding Let_def sw dec by (rule refl)
  qed
qed

lemmas stage_defs =
  getAssetType_def startsWith_def downloadFile_def processMessage_download_def
  processMessage_process_def processAsset_def hasOwnProperty_def publicAssetExists_def
  getContentType_def path_join_def processImage_def processImage_crop_def
  processImage_outputPath_def truthy_def Let_def

theorem acknowledgment_witness:
  "fst (fst (startWorker world0 (Some JsonNull) state0)) = [Ack]
   \<and> fst (fst (startWorker world_offline (Some message_without_requestId) state0)) = [Ack]
   \<and> calls (snd (startWorker world_offline (Some message_without_requestId) state0)) = []
   \<and> fst (fst (startWorker world_unknown
                  (Some (sample_message (Some (image_config None None)))) state0)) = [Ack]
   \<and> fst (fst (startWorker world_offline
                  (Some (sample_message (Some (image_config None None)))) state0)) =
       [Nack False False]
   \<and> fst (fst (startWorker world_codecs_fail
                  (Some (sample_message (Some (image_config None None)))) state0)) =
       [Nack False False]
   \<and> fst (fst (startWorker world_upload_fails
                  (Some (sample_message (Some (image_config None None)))) state0)) =
       [Nack False False]
   \<and> fst (fst (startWorker world_deleted
                  (Some (sample_message (Some (image_config None None)))) state0)) = [Ack]
   \<and> fst (fst (startWorker world0
                  (Some (sample_message (Some (image_config None None)))) state0)) = [Ack]"
proof -
  let ?m = "\<lparr>msg_requestId = Some ''req-1'', msg_source = Some ''cms'',
             msg_originalUrl = Some ''https://x/a.jpg'',
             msg_overwriteUrl = Some ''https://x/a-out.jpg'',
             msg_assetConfig = Some (image_config None None)\<rparr>"
  let ?msg = "sample_message (Some (image_config None None))"
  let ?noid = "\<lparr>msg_requestId = None, msg_source = Some ''cms'',
                msg_originalUrl = Some ''https://x/a.jpg'',
                msg_overwriteUrl = Some ''https://x/a-out.jpg'',
                msg_assetConfig = Some (image_config None None)\<rparr>"
  have n: "fst (fst (startWorker world0 (Some JsonNull) state0)) = [Ack]"
    using acknowledgment [where w = world0 and msg = JsonNull and s = state0,
            THEN conjunct2, THEN conjunct1]
    by simp
  have f: "falsy (msg_requestId ?noid)"
    by (simp add: falsy_def)
  have r: "fst (fst (startWorker world_offline (Some message_without_requestId) state0)) = [Ack]
           \<and> calls (snd (startWorker world_offline (Some message_without_requestId) state0)) = []"
    using acknowledgment [where w = world_offline and msg = message_without_requestId
            and s = state0 and m = ?noid, THEN conjunct2, THEN conjunct1] f
    by (simp add: message_without_requestId_def)
  have pre: "?msg = JsonValue ?m \<and> msg_source ?m = Some ''cms'' \<and> ''cms'' \<noteq> []
        \<and> msg_originalUrl ?m = Some ''https://x/a.jpg'' \<and> ''https://x/a.jpg'' \<noteq> []
        \<and> msg_requestId ?m = Some ''req-1'' \<and> ''req-1'' \<noteq> []"
    by (simp add: sample_message_def)
  note t = acknowledgment [where msg = ?msg and s = state0 and m = ?m and src = "''cms''"
             and url = "''https://x/a.jpg''" and rid = "''req-1''",
             THEN conjunct2, THEN conjunct2, THEN mp, OF pre]
  have u: "fst (fst (startWorker world_unknown (Some ?msg) state0)) = [Ack]"
    using t [of world_unknown] by (simp add: stage_defs world_unknown_def world0_def)
  have o: "fst (fst (startWorker world_offline (Some ?msg) state0)) = [Nack False False]"
    using t [of world_offline] by (simp add: stage_defs world_offline_def world0_def)
  have c: "fst (fst (startWorker world_codecs_fail (Some ?msg) state0)) = [Nack False False]"
    using t [of world_codecs_fail]
    by (simp add: stage_defs world_codecs_fail_def world0_def image_config_def)
  have p: "fst (fst (startWorker world_upload_fails (Some ?msg) state0)) = [Nack False False]"
    using t [of world_upload_fails]
    by (simp add: stage_defs world_upload_fails_def world0_def image_config_def)
  have d: "fst (fst (startWorker world_deleted (Some ?msg) state0)) = [Ack]"
    using t [of world_deleted]
    by (simp add: stage_defs world_deleted_def world0_def image_config_def)
  have a: "fst (fst (startWorker world0 (Some ?msg) state0)) = [Ack]"
    using t [of world0]
    by (simp add: stage_defs world0_def image_config_def)
  show ?thesis using n r u o c p d a by simp
qed

text \<open>
  C1, as stated, fails: a message whose content is not JSON is acknowledged (and the
  callback then rejects while it builds its next log line, without any \<open>nack\<close>), and a
  well-formed message whose asset is of unknown kind is acknowledged too.
\<close>

theorem unparsed_message_is_acknowledged:
  "fst (startWorker world0 (Some (Malformed sample_error)) state0) = ([Ack], Some sample_error)
   \<and> fst (startWorker world_unknown (Some (sample_message (Some (image_config None None)))) state0)
       = ([Ack], None)"
  by (simp add: run_defs)

text \<open>
  C3. The run that skips the upload because the original asset is gone is acknowledged
  and logged as completed, and both temporary files are still there afterwards: the
  \<open>return\<close> in the skip branch leaves \<open>processMessage\<close> before the cleanup step. The run
  that uploads removes both.
\<close>

theorem skipped_upload_keeps_temporary_files:
  "fst skip_run = ([Ack], None)
   \<and> statuses (snd skip_run) ''https://x/a.jpg'' ''req-1'' =
       [Pending, Processing, Processing, Completed]
   \<and> files (snd skip_run) ''/tmp/asset-worker/input-1700000000000'' = Some [1, 2, 3]
   \<and> files (snd skip_run) ''/app/processed/processed-input-1700000000000.webp'' = Some [4, 5]
   \<and> fst upload_run = ([Ack], None)
   \<and> files (snd upload_run) ''/tmp/asset-worker/input-1700000000000'' = None
   \<and> files (snd upload_run) ''/app/processed/processed-input-1700000000000.webp'' = None"
  using skip_run_eval upload_run_eval by simp

text \<open>
  C4. An image job with crop parameters whose metadata probe rejects is rejected as a
  whole: it logs \<open>failed\<close>, encodes nothing and is not acknowledged. The same failure of
  the probe of a video job is logged as a warning and the job completes.
\<close>

theorem image_probe_failure_fails_the_job:
  "fst unreadable_run = ([Nack False False], None)
   \<and> statuses (snd unreadable_run) ''https://x/a.jpg'' ''req-1'' = [Pending, Processing, Failed]
   \<and> calls (snd unreadable_run) = []
   \<and> fst unprobed_run = ([Ack], None)
   \<and> statuses (snd unprobed_run) ''https://x/a.jpg'' ''req-1'' =
       [Pending, Processing, Warning, Warning, Processing, Processing, Completed]"
  using unreadable_run_eval unprobed_run_eval by simp

section \<open>An image job from intake to upload\<close>

lemma getAssetType_image:
  "head_type w url = HeadResponse ok (Some ct) \<Longrightarrow> startsWith ct ''image/'' \<Longrightarrow>
   getAssetType w url s = (''image'', s)"
  by (simp add: getAssetType_def)

lemma processImage_plain:
  assumes "files s p = Some input" and "compress \<noteq> Some True"
      and "sharp_toFile w input None 100 = Inr webp"
  shows "processImage w p compress None lf s =
           (Inr (processImage_outputPath w p),
            s\<lparr>calls := calls s @ [SharpToFile p None 100 (processImage_outputPath w p)],
              files := (files s)(processImage_outputPath w p \<mapsto> webp)\<rparr>)"
  using assms by (simp add: processImage_def Let_def truthy_def)

lemma image_job_success:
  assumes "job_assetConfig j = Some cfg" and "imageProps cfg = Some props"
      and "img_cropParams props = None" and "img_compress props \<noteq> Some True"
      and "http_get w (job_originalUrl j) = GetResponse True input"
      and "sharp_toFile w input None 100 = Inr webp"
      and "head_exists w (job_originalUrl j) = HeadResponse True header"
      and "job_overwriteUrl j = Some target"
      and "http_put w target webp ''image/jpeg'' = PutResponse True"
      and "inputPath = path_join (path_join (tmpdir w) ''asset-worker'') (''input-'' @ now_input w)"
  shows "fst (processMessage_job w j ''image'' s) = Inr ()"
    and "calls (snd (processMessage_job w j ''image'' s)) =
           calls s @ [SharpToFile inputPath None 100 (processImage_outputPath w inputPath),
                      Put target webp ''image/jpeg'']"
    and "statuses (snd (processMessage_job w j ''image'' s)) (job_originalUrl j) (job_requestId j) =
           statuses s (job_originalUrl j) (job_requestId j) @
             [Pending, Processing, Processing, Completed]"
proof -
  let ?L = "logEventCurried (job_requestId j) (job_source j) (job_originalUrl j)"
  let ?s2 = "?L (ev Pending [Txt ''Processing started''])
               (createLogger (job_requestId j) (job_source j) (job_originalUrl j)
                  (job_assetConfig j) s)"
  let ?d = "processMessage_download w j ?L inputPath ?s2"
  have d: "fst ?d = Inr ()" "files (snd ?d) inputPath = Some input"
    "calls (snd ?d) = calls s"
    "request_entries (snd ?d) (job_originalUrl j) (job_requestId j) \<noteq> []"
    "statuses (snd ?d) (job_originalUrl j) (job_requestId j) =
       statuses s (job_originalUrl j) (job_requestId j) @ [Pending, Processing]"
    using assms(5) by (simp_all add: processMessage_download_def downloadFile_def Let_def)
  let ?out = "processImage_outputPath w inputPath"
  let ?p = "processMessage_process w j ''image'' ?L inputPath (snd ?d)"
  have pi: "processImage w inputPath (img_compress props) None (Some ?L) (snd ?d) =
              (Inr ?out,
               (snd ?d)\<lparr>calls := calls (snd ?d) @ [SharpToFile inputPath None 100 ?out],
                        files := (files (snd ?d))(?out \<mapsto> webp)\<rparr>)"
    using processImage_plain [OF d(2) assms(4,6)] by simp
  have p: "fst ?p = Inr ?out" "files (snd ?p) ?out = Some webp"
    "calls (snd ?p) = calls s @ [SharpToFile inputPath None 100 ?out]"
    "request_entries (snd ?p) (job_originalUrl j) (job_requestId j) \<noteq> []"
    "statuses (snd ?p) (job_originalUrl j) (job_requestId j) =
       statuses s (job_originalUrl j) (job_requestId j) @ [Pending, Processing, Processing]"
    using assms(1,2,3) d pi
    by (simp_all add: processMessage_process_def processAsset_def hasOwnProperty_def Let_def)
  let ?r = "processMessage_read ?out (snd ?p)"
  have r: "?r = (Inr webp, snd ?p)"
    using p(2) by (simp add: processMessage_read_def)
  let ?u = "processMessage_upload w j ''image'' ?L webp (snd ?p)"
  have u: "fst ?u = Inr Continues"
    "calls (snd ?u) = calls s @ [SharpToFile inputPath None 100 ?out, Put target webp ''image/jpeg'']"
    "statuses (snd ?u) (job_originalUrl j) (job_requestId j) =
       statuses s (job_originalUrl j) (job_requestId j) @
         [Pending, Processing, Processing, Completed]"
    using assms(7,8,9) p
    by (simp_all add: processMessage_upload_def publicAssetExists_def getContentType_def
          uploadFile_ok Let_def)
  have job: "processMessage_job w j ''image'' s =
               (Inr (), processMessage_cleanup w j inputPath ?out (snd ?u))"
    using d(1) p(1) r u(1) assms(10)
    by (simp add: processMessage_job_def Let_def case_prod_beta)
  show "fst (processMessage_job w j ''image'' s) = Inr ()"
    using job by simp
  show "calls (snd (processMessage_job w j ''image'' s)) =
           calls s @ [SharpToFile inputPath None 100 (processImage_outputPath w inputPath),
                      Put target webp ''image/jpeg'']"
    using job u(2) by simp
  show "statuses (snd (processMessage_job w j ''image'' s)) (job_originalUrl j) (job_requestId j) =
           statuses s (job_originalUrl j) (job_requestId j) @
             [Pending, Processing, Processing, Completed]"
    using job u(3) by simp
qed

text \<open>
  C2, as amended. An intake payload with \<open>source\<close>, \<open>originalUrl\<close>, \<open>overwriteUrl\<close> and
  an \<open>assetConfig\<close> whose \<open>imageProps\<close> entry requests neither crop nor compression is
  queued; when classification yields image, the download, the encoding, the existence
  check and the upload succeed, the job runs to completion: the image is encoded once, at
  quality 100 and without \<open>extract\<close>, the PUT is issued, the logged events are pending,
  processing, processing, completed, and the message is acknowledged.
\<close>

theorem image_job_completes:
  assumes "body_source body = Some src" and "src \<noteq> ''''"
      and "body_originalUrl body = Some url" and "url \<noteq> ''''"
      and "body_overwriteUrl body = Some target" and "target \<noteq> ''''"
      and "body_requestId body = None" and "uuidv4 w \<noteq> ''''"
      and "body_assetConfig body = Some cfg" and "imageProps cfg = Some props"
      and "img_cropParams props = None" and "img_compress props \<noteq> Some True"
      and "connectRabbitMQ w = None"
      and "head_type w url = HeadResponse ok (Some ct)" and "startsWith ct ''image/''"
      and "http_get w url = GetResponse True input"
      and "sharp_toFile w input None 100 = Inr webp"
      and "head_exists w url = HeadResponse True header"
      and "http_put w target webp ''image/jpeg'' = PutResponse True"
      and "inputPath = path_join (path_join (tmpdir w) ''asset-worker'') (''input-'' @ now_input w)"
      and "queued = createAssetJob w body s"
      and "run = startWorker w (snd (fst queued)) (snd queued)"
  shows "fst (fst queued) = Response 200 [(''status'', ''queued''), (''requestId'', uuidv4 w)]
       \<and> fst run = ([Ack], None)
       \<and> new_calls s (snd run) =
           [SharpToFile inputPath None 100 (processImage_outputPath w inputPath),
            Put target webp ''image/jpeg'']
       \<and> new_statuses s (snd run) url (uuidv4 w) = [Pending, Processing, Processing, Completed]"
proof -
  let ?m = "\<lparr>msg_requestId = Some (uuidv4 w), msg_source = Some src, msg_originalUrl = Some url,
             msg_overwriteUrl = Some target, msg_assetConfig = Some cfg\<rparr>"
  let ?j = "\<lparr>job_requestId = uuidv4 w, job_source = src, job_originalUrl = url,
             job_overwriteUrl = Some target, job_assetConfig = Some cfg\<rparr>"
  let ?s1 = "logger Info [Txt (''Asset job published to RabbitMQ | Request ID: '' @ uuidv4 w)] s"
  have q: "queued =
             ((Response 200 [(''status'', ''queued''), (''requestId'', uuidv4 w)],
               Some (JsonValue ?m)), ?s1)"
    using assms(1-9,13,21) by (simp add: createAssetJob_def falsy_def Let_def)
  have pm: "parse_message (JsonValue ?m) = Inr ?j"
    using assms(2,4,8) by (simp add: parse_message_def)
  have ty: "getAssetType w url ?s1 = (''image'', ?s1)"
    using getAssetType_image [OF assms(14,15)] by simp
  have pj: "processMessage w (JsonValue ?m) ?s1 = processMessage_job w ?j ''image'' ?s1"
    using pm ty by (simp add: processMessage_def)
  note js = image_job_success [of ?j cfg props w input webp header target inputPath ?s1]
  have j1: "fst (processMessage_job w ?j ''image'' ?s1) = Inr ()"
    and j2: "calls (snd (processMessage_job w ?j ''image'' ?s1)) =
               calls s @ [SharpToFile inputPath None 100 (processImage_outputPath w inputPath),
                          Put target webp ''image/jpeg'']"
    and j3: "statuses (snd (processMessage_job w ?j ''image'' ?s1)) url (uuidv4 w) =
               statuses s url (uuidv4 w) @ [Pending, Processing, Processing, Completed]"
    using js assms(10,11,12,16,17,18,19,20) by simp_all
  have rn: "run = (([Ack], None),
                   logger Info [Txt (''Job acknowledged | Request ID: '' @ uuidv4 w)]
                     (snd (processMessage_job w ?j ''image'' ?s1)))"
    using q pj j1 assms(22)
    by (cases "processMessage_job w ?j ''image'' ?s1")
       (simp add: startWorker_def requestId_of_def)
  show ?thesis
    using q rn j2 j3 by (simp add: new_calls_def new_statuses_def)
qed

theorem image_job_completes_witness:
  "fst (startWorker world0
          (snd (fst (createAssetJob world0
             (scenario1_body\<lparr>body_assetConfig := Some (image_config None None)\<rparr>) state0)))
          (snd (createAssetJob world0
             (scenario1_body\<lparr>body_assetConfig := Some (image_config None None)\<rparr>) state0)))
     = ([Ack], None)
   \<and> new_statuses state0
       (snd (startWorker world0
          (snd (fst (createAssetJob world0
             (scenario1_body\<lparr>body_assetConfig := Some (image_config None None)\<rparr>) state0)))
          (snd (createAssetJob world0
             (scenario1_body\<lparr>body_assetConfig := Some (image_config None None)\<rparr>) state0))))
       ''https://x/a.jpg'' ''0b5e1c'' = [Pending, Processing, Processing, Completed]"
  using image_job_completes [of "scenario1_body\<lparr>body_assetConfig := Some (image_config None None)\<rparr>"
          "''cms''" "''https://x/a.jpg''" "''https://x/a-out.jpg''" world0
          "image_config None None" "\<lparr>img_cropParams = None, img_compress = None\<rparr>"
          True "''image/jpeg''" "[1, 2, 3]" "[4, 5]" None
          "path_join (path_join (tmpdir world0) ''asset-worker'') (''input-'' @ now_input world0)"
          "createAssetJob world0
             (scenario1_body\<lparr>body_assetConfig := Some (image_config None None)\<rparr>) state0"
          state0
          "startWorker world0
             (snd (fst (createAssetJob world0
                (scenario1_body\<lparr>body_assetConfig := Some (image_config None None)\<rparr>) state0)))
             (snd (createAssetJob world0
                (scenario1_body\<lparr>body_assetConfig := Some (image_config None None)\<rparr>) state0))"]
  by (simp add: scenario1_body_def image_config_def world0_def startsWith_def)

text \<open>
  C2, as stated, fails. The payload of scenario 1 has no \<open>assetConfig\<close>; it is queued,
  the download succeeds, and \<open>processAsset\<close> throws on
  \<open>assetConfig.hasOwnProperty\<close>: the job logs \<open>failed\<close>, makes no call to the encoder or
  to remote storage, and the message is rejected.
\<close>

theorem scenario1_is_rejected:
  "fst (createAssetJob world0 scenario1_body state0) =
     (Response 200 [(''status'', ''queued''), (''requestId'', ''0b5e1c'')],
      Some (JsonValue \<lparr>msg_requestId = Some ''0b5e1c'', msg_source = Some ''cms'',
                        msg_originalUrl = Some ''https://x/a.jpg'',
                        msg_overwriteUrl = Some ''https://x/a-out.jpg'',
                        msg_assetConfig = None\<rparr>))
   \<and> fst scenario1_run = ([Nack False False], None)
   \<and> statuses (snd scenario1_run) ''https://x/a.jpg'' ''0b5e1c'' = [Pending, Processing, Failed]
   \<and> calls (snd scenario1_run) = []"
  using scenario1_run_eval by simp

section \<open>Executor failures\<close>

lemma process_pdf_ghostscript_fails:
  assumes "files s p = Some input" and "length input > 51200"
      and "ghostscript w input = Inl e" and "request_entries s u r \<noteq> []"
      and "job_assetConfig j = Some cfg" and "pdfProps cfg = Some props"
      and "pdf_compress props = Some True"
      and "pr = processMessage_process w j ''pdf'' (logEventCurried r src u) p s"
      and "path = path_join (path_join (tmpdir w) ''asset-worker'')
                    (''processed-pdf-'' @ now_pdf w @ ''.pdf'')"
  shows "fst pr = Inr path" and "files (snd pr) path = Some input"
    and "calls (snd pr) = calls s @ [Ghostscript p (processPDF_outputPath w p)]"
    and "request_entries (snd pr) u r \<noteq> []"
    and "statuses (snd pr) u r = statuses s u r @ [Processing, Warning, Processing]"
proof -
  let ?run = "processPDF w p (Some True) (Some (logEventCurried r src u)) s"
  note g = processPDF_ghostscript_fails [OF assms(1,2,3,4) refl, of src]
  have c: "calls (snd ?run) = calls s @ [Ghostscript p (processPDF_outputPath w p)]"
    using assms(1,2,3) by (simp add: processPDF_def Let_def truthy_def)
  have e: "request_entries (snd ?run) u r \<noteq> []" using assms(4) by simp
  have pr: "pr = (Inr path,
                  logger Info [Txt (''Processing complete | Request ID: '' @ job_requestId j)]
                    (logEventCurried r src u
                       (ev Processing [Txt ''Processing complete, uploading to DO Spaces''])
                       ((snd ?run)\<lparr>files := (files (snd ?run))(path \<mapsto> input)\<rparr>)))"
    using assms(5,6,7,8,9) g(1)
    by (simp add: processMessage_process_def processAsset_def hasOwnProperty_def Let_def
          case_prod_beta)
  show "fst pr = Inr path" using pr by simp
  show "files (snd pr) path = Some input" using pr by simp
  show "calls (snd pr) = calls s @ [Ghostscript p (processPDF_outputPath w p)]"
    using pr c by simp
  show "request_entries (snd pr) u r \<noteq> []" using pr e by simp
  show "statuses (snd pr) u r = statuses s u r @ [Processing, Warning, Processing]"
    using pr e g(2) by simp
qed

lemma process_image_encoder_fails:
  assumes "files s p = Some input" and "request_entries s u r \<noteq> []"
      and "job_assetConfig j = Some cfg" and "imageProps cfg = Some props"
      and "img_cropParams props = None"
      and "\<forall>rect q. sharp_toFile w input rect q = Inl e"
      and "pr = processMessage_process w j ''image'' (logEventCurried r src u) p s"
  shows "fst pr = Inl e" and "statuses (snd pr) u r = statuses s u r @ [Failed]"
  using assms
  by (simp_all add: processMessage_process_def processAsset_def hasOwnProperty_def Let_def
        processImage_def)

lemma process_video_encoder_fails:
  assumes "files s p = Some input" and "request_entries s u r \<noteq> []"
      and "job_assetConfig j = Some cfg" and "videoProps cfg = Some props"
      and "\<forall>cmd. ffmpeg_save w input cmd = Inl e"
      and "pr = processMessage_process w j ''video'' (logEventCurried r src u) p s"
  shows "fst pr = Inl e" and "\<exists>xs. statuses (snd pr) u r = statuses s u r @ xs @ [Failed]"
proof -
  let ?lf = "Some (logEventCurried r src u)"
  let ?run = "processVideo w p (vid_cropParams props) (vid_trimParams props)
                (vid_compression props) ?lf s"
  note v = processVideo_run [OF assms(1,2) refl refl refl refl refl,
             where src = src and w = w and crop = "vid_cropParams props"
               and trim = "vid_trimParams props" and c = "vid_compression props"]
  have f: "fst ?run = Inl e" using v(3) assms(5) by simp
  have e: "request_entries (snd ?run) u r \<noteq> []" using assms(2) by simp
  have pr: "pr = (Inl e, logEventCurried r src u
                           (ev Failed [Txt (''Processing failed: '' @ err_message e)]) (snd ?run))"
    using assms(3,4,6) f
    by (simp add: processMessage_process_def processAsset_def hasOwnProperty_def Let_def
          case_prod_beta)
  show "fst pr = Inl e" using pr by simp
  show "\<exists>xs. statuses (snd pr) u r = statuses s u r @ xs @ [Failed]"
    using pr e v(2) by simp
qed

text \<open>
  C9. When compression of a PDF is requested, the input is above the floor and the
  Ghostscript process fails, \<open>processPDF\<close> logs a warning and returns the input bytes:
  the job goes on, uploads those very bytes and is acknowledged. When the encoder of an
  image job or of a video job fails, the error leaves the executor: the job logs
  \<open>failed\<close> and the message is rejected.
\<close>

theorem pdf_compression_is_best_effort:
  assumes "parse_message msg = Inr j" and "job_assetConfig j = Some cfg"
      and "http_get w (job_originalUrl j) = GetResponse True input"
      and "inputPath = path_join (path_join (tmpdir w) ''asset-worker'') (''input-'' @ now_input w)"
      and "run = startWorker w (Some msg) s"
  shows "(getAssetType w (job_originalUrl j) s = (''pdf'', s)
            \<and> pdfProps cfg = Some props_pdf \<and> pdf_compress props_pdf = Some True
            \<and> length input > 50 * 1024 \<and> ghostscript w input = Inl e
            \<and> head_exists w (job_originalUrl j) = HeadResponse True header
            \<and> job_overwriteUrl j = Some target
            \<and> http_put w target input ''application/pdf'' = PutResponse True \<longrightarrow>
          fst (fst run) = [Ack]
          \<and> new_calls s (snd run) =
              [Ghostscript inputPath (processPDF_outputPath w inputPath),
               Put target input ''application/pdf'']
          \<and> new_statuses s (snd run) (job_originalUrl j) (job_requestId j) =
              [Pending, Processing, Processing, Warning, Processing, Completed])
       \<and> (getAssetType w (job_originalUrl j) s = (''image'', s)
            \<and> imageProps cfg = Some props_img \<and> img_cropParams props_img = None
            \<and> (\<forall>rect q. sharp_toFile w input rect q = Inl e) \<longrightarrow>
          fst (fst run) = [Nack False False]
          \<and> new_statuses s (snd run) (job_originalUrl j) (job_requestId j) =
              [Pending, Processing, Failed])
       \<and> (getAssetType w (job_originalUrl j) s = (''video'', s)
            \<and> videoProps cfg = Some props_vid
            \<and> (\<forall>cmd. ffmpeg_save w input cmd = Inl e) \<longrightarrow>
          fst (fst run) = [Nack False False]
          \<and> last (new_statuses s (snd run) (job_originalUrl j) (job_requestId j)) = Failed)"
proof -
  let ?u = "job_originalUrl j" and ?r = "job_requestId j"
  let ?L = "logEventCurried (job_requestId j) (job_source j) (job_originalUrl j)"
  let ?d = "processMessage_download w j ?L inputPath
              (?L (ev Pending [Txt ''Processing started''])
                 (createLogger (job_requestId j) (job_source j) (job_originalUrl j)
                    (job_assetConfig j) s))"
  note d = download_ok [OF assms(3) refl refl, where inputPath = inputPath and s = s]
  have pdf: "fst (fst run) = [Ack]
          \<and> new_calls s (snd run) =
              [Ghostscript inputPath (processPDF_outputPath w inputPath),
               Put target input ''application/pdf'']
          \<and> new_statuses s (snd run) ?u ?r =
              [Pending, Processing, Processing, Warning, Processing, Completed]"
    if h: "getAssetType w ?u s = (''pdf'', s)" "pdfProps cfg = Some props_pdf"
      "pdf_compress props_pdf = Some True" "length input > 50 * 1024"
      "ghostscript w input = Inl e" "head_exists w ?u = HeadResponse True header"
      "job_overwriteUrl j = Some target"
      "http_put w target input ''application/pdf'' = PutResponse True"
  proof -
    let ?pr = "processMessage_process w j ''pdf'' ?L inputPath (snd ?d)"
    have len: "51200 < length input" using h(4) by simp
    note p = process_pdf_ghostscript_fails [OF d(2) len h(5) d(4) assms(2) h(2,3) refl refl]
    have put: "http_put w target input (getContentType ''pdf'') = PutResponse True"
      using h(8) by (simp add: getContentType_def)
    note js = job_processing_succeeds [OF refl assms(4) refl d(1) refl p(1,2,4) h(6,7) put]
    have pm: "processMessage w msg s = processMessage_job w j ''pdf'' s"
      using processMessage_known [OF assms(1) h(1)] by simp
    have a: "fst (fst run) = [Ack]"
      using js(1) pm assms(5) by (simp add: startWorker_calls)
    have c: "calls (snd run) = calls s @
               [Ghostscript inputPath (processPDF_outputPath w inputPath),
                Put target input ''application/pdf'']"
      using js(2) p(3) d(3) pm assms(5) by (simp add: startWorker_frame getContentType_def)
    have st: "statuses (snd run) ?u ?r = statuses s ?u ?r @
               [Pending, Processing, Processing, Warning, Processing, Completed]"
      using js(3) p(5) d(5) pm assms(5) by (simp add: startWorker_frame)
    show ?thesis using a c st by (simp add: new_calls_def new_statuses_def)
  qed
  have img: "fst (fst run) = [Nack False False]
          \<and> new_statuses s (snd run) ?u ?r = [Pending, Processing, Failed]"
    if h: "getAssetType w ?u s = (''image'', s)" "imageProps cfg = Some props_img"
      "img_cropParams props_img = None" "\<forall>rect q. sharp_toFile w input rect q = Inl e"
  proof -
    note p = process_image_encoder_fails [OF d(2,4) assms(2) h(2,3,4) refl]
    note jf = job_processing_fails [OF refl assms(4) refl d(1) p(1)]
    have pm: "processMessage w msg s = processMessage_job w j ''image'' s"
      using processMessage_known [OF assms(1) h(1)] by simp
    have a: "fst (fst run) = [Nack False False]"
      using jf pm assms(5) by (simp add: startWorker_calls)
    have st: "statuses (snd run) ?u ?r = statuses s ?u ?r @ [Pending, Processing, Failed]"
      using jf p(2) d(5) pm assms(5) by (simp add: startWorker_frame)
    show ?thesis using a st by (simp add: new_statuses_def)
  qed
  have vid: "fst (fst run) = [Nack False False]
          \<and> last (new_statuses s (snd run) ?u ?r) = Failed"
    if h: "getAssetType w ?u s = (''video'', s)" "videoProps cfg = Some props_vid"
      "\<forall>cmd. ffmpeg_save w input cmd = Inl e"
  proof -
    note p = process_video_encoder_fails [OF d(2,4) assms(2) h(2,3) refl]
    note jf = job_processing_fails [OF refl assms(4) refl d(1) p(1)]
    have pm: "processMessage w msg s = processMessage_job w j ''video'' s"
      using processMessage_known [OF assms(1) h(1)] by simp
    have a: "fst (fst run) = [Nack False False]"
      using jf pm assms(5) by (simp add: startWorker_calls)
    obtain xs where
      "statuses (snd (processMessage_process w j ''video'' ?L inputPath (snd ?d))) ?u ?r =
         statuses (snd ?d) ?u ?r @ xs @ [Failed]"
      using p(2) by blast
    then have st: "statuses (snd run) ?u ?r =
                     statuses s ?u ?r @ ([Pending, Processing] @ xs) @ [Failed]"
      using jf d(5) pm assms(5) by (simp add: startWorker_frame)
    have "new_statuses s (snd run) ?u ?r = ([Pending, Processing] @ xs) @ [Failed]"
      unfolding new_statuses_def st by simp
    then show ?thesis using a by simp
  qed
  show ?thesis using pdf img vid by blast
qed

theorem pdf_compression_is_best_effort_witness:
  "fst (fst (startWorker world_pdf_unreliable
               (Some (sample_message (Some (pdf_config (Some True))))) state0)) = [Ack]
   \<and> new_calls state0
       (snd (startWorker world_pdf_unreliable
               (Some (sample_message (Some (pdf_config (Some True))))) state0)) =
       [Ghostscript ''/tmp/asset-worker/input-1700000000000''
          (processPDF_outputPath world_pdf_unreliable ''/tmp/asset-worker/input-1700000000000''),
        Put ''https://x/a-out.jpg'' (replicate 51201 0) ''application/pdf'']
   \<and> fst (fst (startWorker world_codecs_fail
               (Some (sample_message (Some (image_config None None)))) state0)) =
       [Nack False False]"
proof -
  let ?pdf = "sample_message (Some (pdf_config (Some True)))"
  let ?img = "sample_message (Some (image_config None None))"
  have p1: "parse_message ?pdf = Inr (sample_job (Some (pdf_config (Some True))))"
    by (simp add: parse_message_def sample_message_def sample_job_def)
  have p2: "parse_message ?img = Inr (sample_job (Some (image_config None None)))"
    by (simp add: parse_message_def sample_message_def sample_job_def)
  have t1: "getAssetType world_pdf_unreliable ''https://x/a.jpg'' state0 = (''pdf'', state0)"
    by (simp add: getAssetType_def world_pdf_unreliable_def world0_def startsWith_def)
  have t2: "getAssetType world_codecs_fail ''https://x/a.jpg'' state0 = (''image'', state0)"
    by (simp add: getAssetType_def world_codecs_fail_def world0_def startsWith_def)
  have ip: "path_join (path_join (tmpdir world_pdf_unreliable) ''asset-worker'')
              (''input-'' @ now_input world_pdf_unreliable) =
            ''/tmp/asset-worker/input-1700000000000''"
    by (simp add: path_join_def world_pdf_unreliable_def world0_def)
  note a = pdf_compression_is_best_effort [OF p1 _ _ ip [symmetric] refl,
      where cfg = "pdf_config (Some True)" and input = "replicate 51201 0" and s = state0
        and props_pdf = "\<lparr>pdf_compress = Some True\<rparr>" and e = sample_error
        and header = None and target = "''https://x/a-out.jpg''"]
  have a': "fst (fst (startWorker world_pdf_unreliable (Some ?pdf) state0)) = [Ack]
          \<and> new_calls state0 (snd (startWorker world_pdf_unreliable (Some ?pdf) state0)) =
              [Ghostscript ''/tmp/asset-worker/input-1700000000000''
                 (processPDF_outputPath world_pdf_unreliable
                    ''/tmp/asset-worker/input-1700000000000''),
               Put ''https://x/a-out.jpg'' (replicate 51201 0) ''application/pdf'']"
    using a t1
    by (simp add: sample_job_def pdf_config_def world_pdf_unreliable_def world0_def)
  note b = pdf_compression_is_best_effort [OF p2 _ _ refl refl,
      where cfg = "image_config None None" and input = "[1, 2, 3]" and s = state0
        and props_img = "\<lparr>img_cropParams = None, img_compress = None\<rparr>"
        and e = sample_error]
  have b': "fst (fst (startWorker world_codecs_fail (Some ?img) state0)) = [Nack False False]"
    using b t2
    by (simp add: sample_job_def image_config_def world_codecs_fail_def world0_def)
  show ?thesis using a' b' by simp
qed

section \<open>The content type of the upload\<close>

lemma processImage_result_path:
  "fst (processImage w p compress crop lf s) = Inr path \<Longrightarrow>
   path = processImage_outputPath w p \<and> files (snd (processImage w p compress crop lf s)) path \<noteq> None"
  by (cases "processImage_crop w p crop lf s")
     (auto simp add: processImage_def Let_def split: sum.splits option.splits)

text \<open>
  C10. An image job whose download, encoding, existence check and upload succeed, whatever
  crop and compression it requests, makes exactly two calls: the WebP encoding of the
  downloaded bytes into a file whose name ends in \<open>.webp\<close>, and the PUT to
  \<open>overwriteUrl\<close> of the bytes the encoder wrote, with Content-Type \<open>image/jpeg\<close>; it
  ends with the event \<open>completed\<close> and is acknowledged. The content type is that of the
  asset kind, not of the output: in every run of an image job, successful or not, each
  PUT is declared \<open>image/jpeg\<close> and each encoding goes to a \<open>.webp\<close> file, and a path
  that \<open>processImage\<close> returns ends in \<open>.webp\<close> and names a file that is there.
\<close>

theorem image_upload_content_type:
  "(parse_message msg = Inr j \<and> getAssetType w (job_originalUrl j) st = (''image'', st)
      \<and> job_assetConfig j = Some cfg \<and> imageProps cfg = Some props
      \<and> http_get w (job_originalUrl j) = GetResponse True input
      \<and> (img_cropParams props \<noteq> None \<longrightarrow> sharp_metadata w input = Inr md)
      \<and> imgWidth = int (case md_width md of None \<Rightarrow> 0 | Some n \<Rightarrow> n)
      \<and> imgHeight = int (case md_height md of None \<Rightarrow> 0 | Some n \<Rightarrow> n)
      \<and> rect = (case img_cropParams props of
                  None \<Rightarrow> None
                | Some cp \<Rightarrow>
                    Some (if crop_valid cp imgWidth imgHeight then cp
                          else \<lparr>crop_x = 0, crop_y = 0, crop_width = imgWidth,
                                crop_height = imgHeight\<rparr>))
      \<and> q = (if img_compress props = Some True \<and> length input > 500 * 1024 then 60 else 100)
      \<and> sharp_toFile w input rect q = Inr webp
      \<and> head_exists w (job_originalUrl j) = HeadResponse True header
      \<and> job_overwriteUrl j = Some target
      \<and> http_put w target webp ''image/jpeg'' = PutResponse True
      \<and> inputPath = path_join (path_join (tmpdir w) ''asset-worker'')
                       (''input-'' @ now_input w)
      \<and> run = startWorker w (Some msg) st \<longrightarrow>
      fst (fst run) = [Ack]
      \<and> new_calls st (snd run) =
          [SharpToFile inputPath rect q (processImage_outputPath w inputPath),
           Put target webp ''image/jpeg'']
      \<and> endsWith (processImage_outputPath w inputPath) ''.webp''
      \<and> last (new_statuses st (snd run) (job_originalUrl j) (job_requestId j)) = Completed)
   \<and> (list_all image_call_ok (calls s) \<longrightarrow>
        list_all image_call_ok (calls (snd (processMessage_job w j ''image'' s))))
   \<and> (fst (processImage w p compress crop lf s) = Inr path \<longrightarrow>
        endsWith path ''.webp'' \<and> files (snd (processImage w p compress crop lf s)) path \<noteq> None)
   \<and> getContentType ''image'' = ''image/jpeg''"
proof -
  have job: "fst (fst run) = [Ack]
      \<and> new_calls st (snd run) =
          [SharpToFile inputPath rect q (processImage_outputPath w inputPath),
           Put target webp ''image/jpeg'']
      \<and> endsWith (processImage_outputPath w inputPath) ''.webp''
      \<and> last (new_statuses st (snd run) (job_originalUrl j) (job_requestId j)) = Completed"
    if a: "parse_message msg = Inr j \<and> getAssetType w (job_originalUrl j) st = (''image'', st)
      \<and> job_assetConfig j = Some cfg \<and> imageProps cfg = Some props
      \<and> http_get w (job_originalUrl j) = GetResponse True input
      \<and> (img_cropParams props \<noteq> None \<longrightarrow> sharp_metadata w input = Inr md)
      \<and> imgWidth = int (case md_width md of None \<Rightarrow> 0 | Some n \<Rightarrow> n)
      \<and> imgHeight = int (case md_height md of None \<Rightarrow> 0 | Some n \<Rightarrow> n)
      \<and> rect = (case img_cropParams props of
                  None \<Rightarrow> None
                | Some cp \<Rightarrow>
                    Some (if crop_valid cp imgWidth imgHeight then cp
                          else \<lparr>crop_x = 0, crop_y = 0, crop_width = imgWidth,
                                crop_height = imgHeight\<rparr>))
      \<and> q = (if img_compress props = Some True \<and> length input > 500 * 1024 then 60 else 100)
      \<and> sharp_toFile w input rect q = Inr webp
      \<and> head_exists w (job_originalUrl j) = HeadResponse True header
      \<and> job_overwriteUrl j = Some target
      \<and> http_put w target webp ''image/jpeg'' = PutResponse True
      \<and> inputPath = path_join (path_join (tmpdir w) ''asset-worker'')
                       (''input-'' @ now_input w)
      \<and> run = startWorker w (Some msg) st"
  proof -
    have a1: "parse_message msg = Inr j"
      and a2: "getAssetType w (job_originalUrl j) st = (''image'', st)"
      and a3: "job_assetConfig j = Some cfg" and a4: "imageProps cfg = Some props"
      and a5: "http_get w (job_originalUrl j) = GetResponse True input"
      and a6: "img_cropParams props \<noteq> None \<longrightarrow> sharp_metadata w input = Inr md"
      and a7: "imgWidth = int (case md_width md of None \<Rightarrow> 0 | Some n \<Rightarrow> n)"
      and a8: "imgHeight = int (case md_height md of None \<Rightarrow> 0 | Some n \<Rightarrow> n)"
      and a9: "rect = (case img_cropParams props of
                  None \<Rightarrow> None
                | Some cp \<Rightarrow>
                    Some (if crop_valid cp imgWidth imgHeight then cp
                          else \<lparr>crop_x = 0, crop_y = 0, crop_width = imgWidth,
                                crop_height = imgHeight\<rparr>))"
      and qu: "q = (if img_compress props = Some True \<and> length input > 500 * 1024
                    then 60 else 100)"
      and a11: "sharp_toFile w input rect q = Inr webp"
      and a12: "head_exists w (job_originalUrl j) = HeadResponse True header"
      and a13: "job_overwriteUrl j = Some target"
      and a14: "http_put w target webp ''image/jpeg'' = PutResponse True"
      and a15: "inputPath = path_join (path_join (tmpdir w) ''asset-worker'')
                              (''input-'' @ now_input w)"
      and a16: "run = startWorker w (Some msg) st"
      using a by blast+
    have a10: "q = (if img_compress props = Some True \<and> length input > 512000 then 60 else 100)"
      using qu by simp
    note ij = image_job_run [OF a1 a2 a3 a4 a5 a15 a6 a7 a8 a9 a10 a11 a12 a13 a14 a16]
    let ?ws = "case img_cropParams props of
                 None \<Rightarrow> []
               | Some cp \<Rightarrow> if crop_valid cp imgWidth imgHeight then [] else [Warning]"
    have "new_statuses st (snd run) (job_originalUrl j) (job_requestId j) =
            ([Pending, Processing] @ ?ws @ [Processing]) @ [Completed]"
      using ij(3) by simp
    then have l: "last (new_statuses st (snd run) (job_originalUrl j) (job_requestId j)) =
                    Completed"
      by (simp only: last_snoc)
    show ?thesis using ij(1,2) l by simp
  qed
  have safe: "list_all image_call_ok (calls (snd (processMessage_job w j ''image'' s)))"
    if "list_all image_call_ok (calls s)"
    using that by (rule processMessage_job_image_calls_ok)
  have path: "endsWith path ''.webp''
              \<and> files (snd (processImage w p compress crop lf s)) path \<noteq> None"
    if "fst (processImage w p compress crop lf s) = Inr path"
  proof -
    note r = processImage_result_path [OF that]
    have "endsWith path ''.webp''" using r by simp
    then show ?thesis using r by blast
  qed
  have kind: "getContentType ''image'' = ''image/jpeg''"
    by (simp add: getContentType_def)
  show ?thesis using job safe path kind by blast
qed

theorem image_upload_content_type_witness:
  "fst (fst (startWorker world0
               (Some (sample_message (Some (image_config (Some crop_inside) (Some True)))))
               state0)) = [Ack]
   \<and> new_calls state0
       (snd (startWorker world0
               (Some (sample_message (Some (image_config (Some crop_inside) (Some True)))))
               state0)) =
       [SharpToFile ''/tmp/asset-worker/input-1700000000000'' (Some crop_inside) 100
          (processImage_outputPath world0 ''/tmp/asset-worker/input-1700000000000''),
        Put ''https://x/a-out.jpg'' [4, 5] ''image/jpeg'']
   \<and> list_all image_call_ok
       (calls (snd (processMessage_job world_upload_fails
                      (sample_job (Some (image_config (Some crop_inside) (Some True))))
                      ''image'' state0)))"
proof -
  let ?cfg = "image_config (Some crop_inside) (Some True)"
  let ?msg = "sample_message (Some ?cfg)"
  let ?props = "\<lparr>img_cropParams = Some crop_inside, img_compress = Some True\<rparr>"
  let ?md = "\<lparr>md_width = Some 800, md_height = Some 600\<rparr>"
  have v: "crop_valid crop_inside 800 600"
    by (simp add: crop_valid_def crop_inside_def)
  have a: "parse_message ?msg = Inr (sample_job (Some ?cfg))
      \<and> getAssetType world0 (job_originalUrl (sample_job (Some ?cfg))) state0 =
          (''image'', state0)
      \<and> job_assetConfig (sample_job (Some ?cfg)) = Some ?cfg \<and> imageProps ?cfg = Some ?props
      \<and> http_get world0 (job_originalUrl (sample_job (Some ?cfg))) = GetResponse True [1, 2, 3]
      \<and> (img_cropParams ?props \<noteq> None \<longrightarrow> sharp_metadata world0 [1, 2, 3] = Inr ?md)
      \<and> 800 = int (case md_width ?md of None \<Rightarrow> 0 | Some n \<Rightarrow> n)
      \<and> 600 = int (case md_height ?md of None \<Rightarrow> 0 | Some n \<Rightarrow> n)
      \<and> Some crop_inside =
          (case img_cropParams ?props of
             None \<Rightarrow> None
           | Some cp \<Rightarrow>
               Some (if crop_valid cp 800 600 then cp
                     else \<lparr>crop_x = 0, crop_y = 0, crop_width = 800, crop_height = 600\<rparr>))
      \<and> 100 = (if img_compress ?props = Some True \<and> length [1 :: nat, 2, 3] > 500 * 1024
                then 60 else (100 :: nat))
      \<and> sharp_toFile world0 [1, 2, 3] (Some crop_inside) 100 = Inr [4, 5]
      \<and> head_exists world0 (job_originalUrl (sample_job (Some ?cfg))) = HeadResponse True None
      \<and> job_overwriteUrl (sample_job (Some ?cfg)) = Some ''https://x/a-out.jpg''
      \<and> http_put world0 ''https://x/a-out.jpg'' [4, 5] ''image/jpeg'' = PutResponse True
      \<and> ''/tmp/asset-worker/input-1700000000000'' =
          path_join (path_join (tmpdir world0) ''asset-worker'') (''input-'' @ now_input world0)
      \<and> startWorker world0 (Some ?msg) state0 = startWorker world0 (Some ?msg) state0"
    using v
    by (simp add: parse_message_def sample_message_def sample_job_def getAssetType_def
          startsWith_def image_config_def world0_def path_join_def)
  note t = image_upload_content_type [where msg = ?msg and j = "sample_job (Some ?cfg)"
      and w = world0 and st = state0 and cfg = ?cfg and props = ?props and input = "[1, 2, 3]"
      and md = ?md and imgWidth = 800 and imgHeight = 600 and rect = "Some crop_inside"
      and q = 100 and webp = "[4, 5]" and header = None and target = "''https://x/a-out.jpg''"
      and inputPath = "''/tmp/asset-worker/input-1700000000000''"
      and run = "startWorker world0 (Some ?msg) state0"]
  have j: "fst (fst (startWorker world0 (Some ?msg) state0)) = [Ack]
           \<and> new_calls state0 (snd (startWorker world0 (Some ?msg) state0)) =
               [SharpToFile ''/tmp/asset-worker/input-1700000000000'' (Some crop_inside) 100
                  (processImage_outputPath world0 ''/tmp/asset-worker/input-1700000000000''),
                Put ''https://x/a-out.jpg'' [4, 5] ''image/jpeg'']"
    using t [THEN conjunct1, THEN mp, OF a] by simp
  have c: "list_all image_call_ok (calls state0)" by simp
  have s: "list_all image_call_ok
             (calls (snd (processMessage_job world_upload_fails (sample_job (Some ?cfg))
                            ''image'' state0)))"
    using image_upload_content_type [where s = state0 and w = world_upload_fails
            and j = "sample_job (Some ?cfg)", THEN conjunct2, THEN conjunct1] c
    by blast
  show ?thesis using j s by simp
qed


end
